theory Spec2Isabelle
  imports Main
begin

section \<open>JavaScript strings, objects and regular expressions\<close>

text \<open>
  A JavaScript string is a sequence of UTF-16 code units. The regular expressions of
  \<^verbatim>\<open>scraperUtils.js\<close> contain code units above 255 (the emoji alternatives are stored
  in the file as the code points listed below), so a code unit is a \<^typ>\<open>nat\<close>;
  \<open>str\<close> embeds an ASCII literal.
\<close>

type_synonym jsstring = "nat list"

definition str :: "string \<Rightarrow> jsstring" where
  "str s = map of_char s"

text \<open>\<^verbatim>\<open>s.includes(sub)\<close>: \<open>sub\<close> occurs in \<open>s\<close> as a contiguous block.\<close>

fun str_includes :: "jsstring \<Rightarrow> jsstring \<Rightarrow> bool" where
  "str_includes [] sub = (sub = [])"
| "str_includes (x # xs) sub = (take (length sub) (x # xs) = sub \<or> str_includes xs sub)"

text \<open>
  \<^verbatim>\<open>obj[key]\<close> on an object literal finds the literal's own properties first and then
  the properties every object literal inherits from \<^verbatim>\<open>Object.prototype\<close>. All inherited
  values are functions, except \<^verbatim>\<open>__proto__\<close>, which reads as the prototype object
  itself; every one of them is truthy.
\<close>

datatype 'a js_prop = Own 'a | Inherited jsstring | Absent

definition objectPrototypeKeys :: "jsstring list" where
  "objectPrototypeKeys = map str
     [''constructor'', ''__proto__'', ''hasOwnProperty'', ''isPrototypeOf'',
      ''propertyIsEnumerable'', ''toLocaleString'', ''toString'', ''valueOf'',
      ''__defineGetter__'', ''__defineSetter__'', ''__lookupGetter__'', ''__lookupSetter__'']"

definition js_get :: "(jsstring \<times> 'a) list \<Rightarrow> jsstring \<Rightarrow> 'a js_prop" where
  "js_get obj key =
     (case map_of obj key of
        Some v \<Rightarrow> Own v
      | None \<Rightarrow> if key \<in> set objectPrototypeKeys then Inherited key else Absent)"

subsection \<open>Character sets\<close>

text \<open>
  \<open>canonicalize\<close> is the case folding of an \<^verbatim>\<open>/i\<close> regular expression without the
  \<^verbatim>\<open>u\<close> flag: the upper case of the code unit, except that a code unit above 127 is
  never folded onto an ASCII one. The table is exact on ASCII and on the letters that occur
  in the regular expressions below (U+00F0, U+00E2, U+00EF, U+0178, U+017D with their case
  partners); every other code unit is its own canonical form.
\<close>

definition canonicalize :: "nat \<Rightarrow> nat" where
  "canonicalize c =
     (if 97 \<le> c \<and> c \<le> 122 then c - 32
      else if c = 0xF0 then 0xD0
      else if c = 0xE2 then 0xC2
      else if c = 0xEF then 0xCF
      else if c = 0xFF then 0x178
      else if c = 0x17E then 0x17D
      else c)"

definition whiteSpace :: "nat list" where
  "whiteSpace = [9, 10, 11, 12, 13, 32, 0xA0, 0x1680,
     0x2000, 0x2001, 0x2002, 0x2003, 0x2004, 0x2005, 0x2006, 0x2007, 0x2008, 0x2009, 0x200A,
     0x2028, 0x2029, 0x202F, 0x205F, 0x3000, 0xFEFF]"

definition lineTerminators :: "nat list" where
  "lineTerminators = [10, 13, 0x2028, 0x2029]"

datatype cset =
    CLit nat            \<comment> \<open>a literal code unit\<close>
  | CDigit              \<comment> \<open>\<^verbatim>\<open>\d\<close>\<close>
  | CSpace              \<comment> \<open>\<^verbatim>\<open>\s\<close>\<close>
  | CAny                \<comment> \<open>\<^verbatim>\<open>.\<close>\<close>
  | CRange nat nat      \<comment> \<open>\<^verbatim>\<open>a-z\<close> inside a class\<close>
  | COr cset cset       \<comment> \<open>union of class members\<close>
  | CNot cset           \<comment> \<open>\<^verbatim>\<open>[^...]\<close>\<close>

fun cmem :: "bool \<Rightarrow> cset \<Rightarrow> nat \<Rightarrow> bool" where
  "cmem ic (CLit c) d = (if ic then canonicalize c = canonicalize d else c = d)"
| "cmem ic CDigit d = (48 \<le> d \<and> d \<le> 57)"
| "cmem ic CSpace d = (d \<in> set whiteSpace)"
| "cmem ic CAny d = (d \<notin> set lineTerminators)"
| "cmem ic (CRange lo hi) d =
     (if ic then canonicalize d \<in> canonicalize ` set [lo..<Suc hi] else lo \<le> d \<and> d \<le> hi)"
| "cmem ic (COr a b) d = (cmem ic a d \<or> cmem ic b d)"
| "cmem ic (CNot a) d = (\<not> cmem ic a d)"

subsection \<open>A backtracking matcher\<close>

datatype regex =
    Eps
  | Sym cset
  | Cat regex regex
  | Alt regex regex
  | Opt regex            \<comment> \<open>\<^verbatim>\<open>r?\<close>\<close>
  | Star regex           \<comment> \<open>\<^verbatim>\<open>r*\<close>, greedy\<close>
  | LazyStar regex       \<comment> \<open>\<^verbatim>\<open>r*?\<close>\<close>
  | Group nat regex      \<comment> \<open>capturing group number \<open>n\<close>\<close>

type_synonym caps = "(nat \<times> jsstring) list"

text \<open>
  \<open>matchings ic r s c\<close> lists, in the order in which a backtracking matcher tries them, the ways
  \<open>r\<close> can match a prefix of \<open>s\<close>: each entry is the rest of the input and the captures
  made. A greedy star tries one more iteration before stopping, a lazy one stops first; an
  iteration that consumes nothing is rejected, as in ECMAScript.
\<close>

fun matchings :: "bool \<Rightarrow> regex \<Rightarrow> jsstring \<Rightarrow> caps \<Rightarrow> (jsstring \<times> caps) list" where
  "matchings ic Eps s c = [(s, c)]"
| "matchings ic (Sym cs) s c =
     (case s of [] \<Rightarrow> [] | x # xs \<Rightarrow> if cmem ic cs x then [(xs, c)] else [])"
| "matchings ic (Cat r1 r2) s c = concat (map (\<lambda>(s1, c1). matchings ic r2 s1 c1) (matchings ic r1 s c))"
| "matchings ic (Alt r1 r2) s c = matchings ic r1 s c @ matchings ic r2 s c"
| "matchings ic (Opt r) s c = matchings ic r s c @ [(s, c)]"
| "matchings ic (Star r) s c =
     concat (map (\<lambda>(s1, c1). if length s1 < length s then matchings ic (Star r) s1 c1 else [])
                 (matchings ic r s c)) @ [(s, c)]"
| "matchings ic (LazyStar r) s c =
     (s, c) # concat (map (\<lambda>(s1, c1). if length s1 < length s then matchings ic (LazyStar r) s1 c1 else [])
                          (matchings ic r s c))"
| "matchings ic (Group n r) s c =
     map (\<lambda>(s1, c1). (s1, (n, take (length s - length s1) s) # c1)) (matchings ic r s c)"

text \<open>
  \<^verbatim>\<open>s.match(re)\<close> for a regular expression without the \<^verbatim>\<open>g\<close> flag: the first match
  at the leftmost position where there is one. Group 0 is the whole match.
\<close>

fun regex_match :: "bool \<Rightarrow> regex \<Rightarrow> jsstring \<Rightarrow> caps option" where
  "regex_match ic r s =
     (case matchings ic r s [] of
        (rest, c) # _ \<Rightarrow> Some ((0, take (length s - length rest) s) # c)
      | [] \<Rightarrow> (case s of [] \<Rightarrow> None | _ # xs \<Rightarrow> regex_match ic r xs))"

definition capture :: "caps \<Rightarrow> nat \<Rightarrow> jsstring option" where
  "capture m n = map_of m n"

text \<open>Constructors for the shapes the source's patterns have.\<close>

fun lits :: "jsstring \<Rightarrow> regex" where
  "lits [] = Eps"
| "lits [c] = Sym (CLit c)"
| "lits (c # cs) = Cat (Sym (CLit c)) (lits cs)"

definition lit :: "string \<Rightarrow> regex" where
  "lit s = lits (str s)"

fun seqs :: "regex list \<Rightarrow> regex" where
  "seqs [] = Eps"
| "seqs [r] = r"
| "seqs (r # rs) = Cat r (seqs rs)"

fun alts :: "regex list \<Rightarrow> regex" where
  "alts [] = Eps"
| "alts [r] = r"
| "alts (r # rs) = Alt r (alts rs)"

definition plus :: "regex \<Rightarrow> regex" where
  "plus r = Cat r (Star r)"

subsection \<open>\<^verbatim>\<open>parseInt\<close>\<close>

text \<open>
  \<^verbatim>\<open>parseInt(s)\<close> without a radix: leading white space, an optional sign, an optional
  \<^verbatim>\<open>0x\<close> prefix, then the longest run of digits; \<open>None\<close> is \<^verbatim>\<open>NaN\<close>. The result is
  the exact integer (the rounding of a JavaScript number above \<open>2^53\<close> is not modelled).
\<close>

definition digitValue :: "nat \<Rightarrow> nat option" where
  "digitValue c =
     (if 48 \<le> c \<and> c \<le> 57 then Some (c - 48)
      else if 97 \<le> c \<and> c \<le> 122 then Some (c - 87)
      else if 65 \<le> c \<and> c \<le> 90 then Some (c - 55)
      else None)"

fun digitsPrefix :: "nat \<Rightarrow> jsstring \<Rightarrow> nat list" where
  "digitsPrefix radix [] = []"
| "digitsPrefix radix (c # cs) =
     (case digitValue c of
        Some v \<Rightarrow> if v < radix then v # digitsPrefix radix cs else []
      | None \<Rightarrow> [])"

definition digitsValue :: "nat \<Rightarrow> nat list \<Rightarrow> nat" where
  "digitsValue radix ds = foldl (\<lambda>acc d. acc * radix + d) 0 ds"

definition parseInt :: "jsstring \<Rightarrow> int option" where
  "parseInt s =
     (let t = dropWhile (\<lambda>c. c \<in> set whiteSpace) s;
          neg = (t \<noteq> [] \<and> hd t = 45);
          u = (if t \<noteq> [] \<and> (hd t = 45 \<or> hd t = 43) then tl t else t);
          hex = (take 2 u = str ''0x'' \<or> take 2 u = str ''0X'');
          radix = (if hex then 16 else 10);
          ds = digitsPrefix radix (if hex then drop 2 u else u)
      in if ds = [] then None
         else Some ((if neg then - 1 else 1) * int (digitsValue radix ds)))"

section \<open>scraperUtils.js\<close>

subsection \<open>\<^verbatim>\<open>parseTimeframe\<close>\<close>

text \<open>
  The function returns \<^verbatim>\<open>timeMap[timeframe] || timeMap['7d']\<close>. What it returns is a
  number for an own key, and the inherited member of \<^verbatim>\<open>Object.prototype\<close> when the
  argument names one.
\<close>

datatype jsvalue = Millis int | Builtin jsstring

definition timeMap :: "(jsstring \<times> int) list" where
  "timeMap =
     [(str ''1h'', 60 * 60 * 1000),
      (str ''6h'', 6 * 60 * 60 * 1000),
      (str ''12h'', 12 * 60 * 60 * 1000),
      (str ''1d'', 24 * 60 * 60 * 1000),
      (str ''3d'', 3 * 24 * 60 * 60 * 1000),
      (str ''7d'', 7 * 24 * 60 * 60 * 1000),
      (str ''30d'', 30 * 24 * 60 * 60 * 1000)]"

definition timeMapValue :: "jsstring \<Rightarrow> jsvalue option" where
  \<comment> \<open>\<^verbatim>\<open>timeMap[key]\<close>; \<open>None\<close> is \<^verbatim>\<open>undefined\<close>\<close>
  "timeMapValue key =
     (case js_get timeMap key of
        Own n \<Rightarrow> Some (Millis n)
      | Inherited k \<Rightarrow> Some (Builtin k)
      | Absent \<Rightarrow> None)"

definition truthy :: "jsvalue option \<Rightarrow> bool" where
  "truthy v = (case v of None \<Rightarrow> False | Some (Millis n) \<Rightarrow> n \<noteq> 0 | Some (Builtin k) \<Rightarrow> True)"

definition parseTimeframe :: "jsstring \<Rightarrow> jsvalue option" where
  "parseTimeframe timeframe =
     (if truthy (timeMapValue timeframe) then timeMapValue timeframe
      else timeMapValue (str ''7d''))"

subsection \<open>\<^verbatim>\<open>generatePostId\<close>\<close>

text \<open>
  The arguments are interpolated into a template string, so each is first converted to a
  string. The callers pass strings for the platform and the author, a \<^verbatim>\<open>Date\<close>'s time
  value for the timestamp (\<open>None\<close> is \<^verbatim>\<open>NaN\<close>) and an integer index.
\<close>

fun natToString :: "nat \<Rightarrow> jsstring" where
  "natToString n = (if n < 10 then [48 + n] else natToString (n div 10) @ [48 + n mod 10])"

definition intToString :: "int \<Rightarrow> jsstring" where
  "intToString i = (if i < 0 then 45 # natToString (nat (- i)) else natToString (nat i))"

definition numberToString :: "int option \<Rightarrow> jsstring" where
  "numberToString v = (case v of None \<Rightarrow> str ''NaN'' | Some i \<Rightarrow> intToString i)"

definition idChars :: cset where
  \<comment> \<open>\<^verbatim>\<open>[^a-zA-Z0-9_]\<close>\<close>
  "idChars = CNot (COr (CRange 97 122) (COr (CRange 65 90) (COr (CRange 48 57) (CLit 95))))"

definition replaceAllChars :: "cset \<Rightarrow> nat \<Rightarrow> jsstring \<Rightarrow> jsstring" where
  \<comment> \<open>\<^verbatim>\<open>s.replace(/[...]/g, c)\<close> for a one-character class and a one-character replacement\<close>
  "replaceAllChars cs r s = map (\<lambda>c. if cmem False cs c then r else c) s"

definition generatePostId :: "jsstring \<Rightarrow> jsstring \<Rightarrow> int option \<Rightarrow> int \<Rightarrow> jsstring" where
  "generatePostId platform author timestamp index =
     replaceAllChars idChars 95
       (platform @ [95] @ author @ [95] @ numberToString timestamp @ [95] @ intToString index)"

subsection \<open>\<^verbatim>\<open>parseStats\<close>\<close>

text \<open>
  The patterns, all with the \<^verbatim>\<open>i\<close> flag. \<open>numCapture\<close> is the group
  \<^verbatim>\<open>(\d+[\d,]*)\<close> every pattern has; \<open>numThen ws\<close> is
  \<^verbatim>\<open>(\d+[\d,]*)\s*(w1|w2|...)\<close>; \<open>numWord w\<close> is \<^verbatim>\<open>(\d+[\d,]*)\s*ws?\<close>;
  \<open>wordThenNum w\<close> is \<^verbatim>\<open>w.*?(\d+[\d,]*)\<close>. The non-ASCII alternatives are given by
  the code points they have in the source file.
\<close>

definition numCapture :: regex where
  "numCapture = Group 1 (Cat (plus (Sym CDigit)) (Star (Sym (COr CDigit (CLit 44)))))"

definition numThen :: "regex list \<Rightarrow> regex" where
  "numThen ws = seqs [numCapture, Star (Sym CSpace), Group 2 (alts ws)]"

definition numWord :: "string \<Rightarrow> regex" where
  "numWord w = seqs [numCapture, Star (Sym CSpace), lit w, Opt (lit ''s'')]"

definition wordThenNum :: "string \<Rightarrow> regex" where
  "wordThenNum w = seqs [lit w, LazyStar (Sym CAny), numCapture]"

definition platformPatterns :: "(jsstring \<times> (string \<times> regex list) list) list" where
  "platformPatterns =
     [(str ''twitter'',
        [(''likes'',
            [numThen [lit ''like'', lit ''heart'', lits [0xF0, 0x178, 0x2018],
                      lits [0xE2, 0x2122, 0xA5, 0xEF, 0xB8]],
             numWord ''like'']),
         (''retweets'',
            [numThen [lit ''retweet'', lit ''repost'', lits [0xF0, 0x178, 0x201D, 0x201E]],
             numWord ''retweet'']),
         (''replies'',
            [numThen [lit ''repl'', lit ''comment'', lits [0xF0, 0x178, 0x2019, 0xAC]],
             numWord ''replie''])]),
      (str ''facebook'',
        [(''likes'',
            [numThen [lit ''like'', lits [0xF0, 0x178, 0x2018], lit ''reaction''],
             seqs [numCapture, Star (Sym CSpace), lit ''people reacted'']]),
         (''comments'',
            [numThen [lit ''comment'', lits [0xF0, 0x178, 0x2019, 0xAC]],
             numWord ''comment'']),
         (''shares'',
            [numThen [lit ''share'', lits [0xF0, 0x178, 0x201D, 0x201E]],
             numWord ''share''])]),
      (str ''instagram'',
        [(''likes'',
            [numThen [lit ''like'', lits [0xE2, 0xA4, 0xEF, 0xB8]],
             numWord ''like'']),
         (''comments'',
            [numThen [lit ''comment'', lits [0xF0, 0x178, 0x2019, 0xAC]],
             numWord ''comment'']),
         (''views'',
            [numThen [lit ''view'', lits [0xF0, 0x178, 0x2018, 0xEF, 0xB8]],
             numWord ''view''])]),
      (str ''tiktok'',
        [(''likes'',
            [numThen [lit ''like'', lits [0xE2, 0xA4, 0xEF, 0xB8]],
             numWord ''like'']),
         (''comments'',
            [numThen [lit ''comment'', lits [0xF0, 0x178, 0x2019, 0xAC]],
             numWord ''comment'']),
         (''shares'',
            [numThen [lit ''share'', lits [0xE2, 0x2020, 0x2014, 0xEF, 0xB8]],
             numWord ''share'']),
         (''views'',
            [numThen [lit ''view'', lit ''play''],
             numWord ''view''])]),
      (str ''youtube'',
        [(''likes'',
            [numThen [lit ''like'', lits [0xF0, 0x178, 0x2018]],
             numWord ''like'']),
         (''dislikes'',
            [numThen [lit ''dislike'', lits [0xF0, 0x178, 0x2018, 0x17D]],
             numWord ''dislike'']),
         (''views'',
            [numThen [lit ''view'', lits [0xF0, 0x178, 0x2018, 0xEF, 0xB8]],
             numWord ''view'']),
         (''subscribers'',
            [numThen [lit ''subscriber'', lit ''sub''],
             numWord ''subscriber''])])]"

definition commonPatterns :: "(string \<times> regex list) list" where
  "commonPatterns =
     [(''likes'',
         [numThen [lit ''like'', lit ''heart'', lits [0xF0, 0x178, 0x2018],
                   lits [0xE2, 0x2122, 0xA5, 0xEF, 0xB8], lits [0xE2, 0xA4, 0xEF, 0xB8]],
          numWord ''like'',
          wordThenNum ''like'']),
      (''comments'',
         [numThen [lit ''comment'', lit ''reply'', lits [0xF0, 0x178, 0x2019, 0xAC]],
          numWord ''comment'',
          wordThenNum ''comment'']),
      (''shares'',
         [numThen [lit ''share'', lit ''retweet'', lit ''repost'', lits [0xF0, 0x178, 0x201D, 0x201E]],
          numThen [Cat (lit ''share'') (Opt (lit ''s'')), Cat (lit ''retweet'') (Opt (lit ''s'')),
                   Cat (lit ''repost'') (Opt (lit ''s''))],
          wordThenNum ''share'']),
      (''views'',
         [numThen [lit ''view'', lit ''impression'', lits [0xF0, 0x178, 0x2018, 0xEF, 0xB8]],
          numWord ''view'',
          wordThenNum ''view''])]"

text \<open>
  \<^verbatim>\<open>platformPatterns[platform] || commonPatterns\<close>, then \<^verbatim>\<open>Object.entries\<close> of it.
  An inherited member of \<^verbatim>\<open>Object.prototype\<close> is truthy and has no enumerable property
  of its own.
\<close>

definition patternsFor :: "jsstring \<Rightarrow> (string \<times> regex list) list" where
  "patternsFor platform =
     (case js_get platformPatterns platform of
        Own p \<Rightarrow> p
      | Inherited k \<Rightarrow> []
      | Absent \<Rightarrow> commonPatterns)"

definition removeCommas :: "jsstring \<Rightarrow> jsstring" where
  \<comment> \<open>\<^verbatim>\<open>.replace(/,/g, '')\<close>\<close>
  "removeCommas s = filter (\<lambda>c. c \<noteq> 44) s"

text \<open>
  One pattern of the inner \<^verbatim>\<open>for\<close> loop: the number it yields, if the pattern matches,
  group 1 is a non-empty string and \<^verbatim>\<open>parseInt\<close> of it is not \<^verbatim>\<open>NaN\<close>.
\<close>

definition patternNumber :: "regex \<Rightarrow> jsstring \<Rightarrow> int option" where
  "patternNumber pattern statsText =
     (case regex_match True pattern statsText of
        None \<Rightarrow> None
      | Some m \<Rightarrow>
          (case capture m 1 of
             None \<Rightarrow> None
           | Some g \<Rightarrow> if g = [] then None else parseInt (removeCommas g)))"

fun firstNumber :: "regex list \<Rightarrow> jsstring \<Rightarrow> int option" where
  "firstNumber [] statsText = None"
| "firstNumber (pattern # rest) statsText =
     (case patternNumber pattern statsText of
        Some number \<Rightarrow> Some number
      | None \<Rightarrow> firstNumber rest statsText)"

type_synonym stats = "(string \<times> int) list"

definition setProp :: "stats \<Rightarrow> string \<Rightarrow> int \<Rightarrow> stats" where
  \<comment> \<open>\<^verbatim>\<open>stats[key] = number\<close>: a new key goes last, an old one keeps its place\<close>
  "setProp st key number =
     (if key \<in> fst ` set st then map (\<lambda>(k, v). if k = key then (k, number) else (k, v)) st
      else st @ [(key, number)])"

fun eachPattern :: "(string \<times> regex list) list \<Rightarrow> jsstring \<Rightarrow> stats \<Rightarrow> stats" where
  "eachPattern [] statsText st = st"
| "eachPattern ((key, patternArray) # rest) statsText st =
     eachPattern rest statsText
       (case firstNumber patternArray statsText of
          Some number \<Rightarrow> setProp st key number
        | None \<Rightarrow> st)"

definition parseStats :: "jsstring \<Rightarrow> jsstring \<Rightarrow> stats" where
  "parseStats statsText platform =
     (if statsText = [] then [] else eachPattern (patternsFor platform) statsText [])"

section \<open>Dates\<close>

text \<open>
  A \<^verbatim>\<open>Date\<close> is its time value in milliseconds since the epoch, or invalid. Time values
  are unbounded integers here: the limit of \<open>8.64e15\<close> ms on either side of the epoch is not
  modelled. What the engine's date parser and calendar do is not part of the repository;
  they are the parameters \<open>dateParse\<close> (\<^verbatim>\<open>new Date(string)\<close>), \<open>getFullYear\<close> and
  \<open>setFullYear\<close>.
\<close>

datatype jsdate = InvalidDate | Time int

record builtins =
  dateParse :: "jsstring \<Rightarrow> jsdate"
  getFullYear :: "int \<Rightarrow> int"
  setFullYear :: "int \<Rightarrow> int \<Rightarrow> jsdate"

definition dateLess :: "jsdate \<Rightarrow> jsdate \<Rightarrow> bool" where
  \<comment> \<open>\<^verbatim>\<open>a < b\<close> on dates: false as soon as one is invalid\<close>
  "dateLess a b = (case (a, b) of (Time x, Time y) \<Rightarrow> x < y | _ \<Rightarrow> False)"

definition dateGreaterEq :: "jsdate \<Rightarrow> jsdate \<Rightarrow> bool" where
  "dateGreaterEq a b = (case (a, b) of (Time x, Time y) \<Rightarrow> x \<ge> y | _ \<Rightarrow> False)"

text \<open>
  \<^verbatim>\<open>toLowerCase\<close>: exact on ASCII and on the two code units above 127 whose lower case
  contains an ASCII letter (U+212A and U+0130); any other code unit is left as it is,
  which no comparison with an ASCII literal can see.
\<close>

definition toLowerCase :: "jsstring \<Rightarrow> jsstring" where
  "toLowerCase s =
     concat (map (\<lambda>c. if 65 \<le> c \<and> c \<le> 90 then [c + 32]
                       else if c = 0x212A then [107]
                       else if c = 0x130 then [105, 0x307]
                       else [c]) s)"

subsection \<open>\<^verbatim>\<open>parseFacebookDate\<close>\<close>

definition agoRegex :: regex where
  \<comment> \<open>\<^verbatim>\<open>/(\d+)\s*(minute|hour|day|week)s?\s*ago/i\<close>\<close>
  "agoRegex =
     seqs [Group 1 (plus (Sym CDigit)), Star (Sym CSpace),
           Group 2 (alts [lit ''minute'', lit ''hour'', lit ''day'', lit ''week'']),
           Opt (lit ''s''), Star (Sym CSpace), lit ''ago'']"

definition monthRegex :: regex where
  \<comment> \<open>\<^verbatim>\<open>/(January|...|December)\s+(\d{1,2})/i\<close>\<close>
  "monthRegex =
     seqs [Group 1 (alts (map lit [''January'', ''February'', ''March'', ''April'', ''May'',
                                   ''June'', ''July'', ''August'', ''September'', ''October'',
                                   ''November'', ''December''])),
           plus (Sym CSpace),
           Group 2 (Cat (Sym CDigit) (Opt (Sym CDigit)))]"

definition timeMinus :: "int \<Rightarrow> int option \<Rightarrow> int \<Rightarrow> jsdate" where
  \<comment> \<open>\<^verbatim>\<open>new Date(now.getTime() - value * unitMs)\<close>\<close>
  "timeMinus now v unitMs = (case v of None \<Rightarrow> InvalidDate | Some n \<Rightarrow> Time (now - n * unitMs))"

text \<open>
  A capture that took no part in the match is \<^verbatim>\<open>undefined\<close>: \<^verbatim>\<open>parseInt\<close> of it is
  \<^verbatim>\<open>NaN\<close>, a template literal prints it as \<^verbatim>\<open>undefined\<close>, calling a method on it
  throws. How a block of statements ends: it returns a value, throws, or runs to its end.
\<close>

definition parseIntOf :: "jsstring option \<Rightarrow> int option" where
  "parseIntOf g = (case g of None \<Rightarrow> None | Some s \<Rightarrow> parseInt s)"

definition printed :: "jsstring option \<Rightarrow> jsstring" where
  "printed g = (case g of None \<Rightarrow> str ''undefined'' | Some s \<Rightarrow> s)"

datatype 'a completion = Returns 'a | Throws | RunsOn

definition relativeDate :: "int \<Rightarrow> jsstring \<Rightarrow> jsdate completion" where
  \<comment> \<open>the \<^verbatim>\<open>if (dateText.includes('ago'))\<close> block\<close>
  "relativeDate now dateText =
     (if str_includes dateText (str ''ago'') then
        (case regex_match True agoRegex dateText of
           None \<Rightarrow> RunsOn
         | Some timeMatch \<Rightarrow>
             (let v = parseIntOf (capture timeMatch 1) in
              case capture timeMatch 2 of
                None \<Rightarrow> Throws
              | Some g \<Rightarrow>
                  (let unit = toLowerCase g in
                   if unit = str ''minute'' then Returns (timeMinus now v (60 * 1000))
                   else if unit = str ''hour'' then Returns (timeMinus now v (60 * 60 * 1000))
                   else if unit = str ''day'' then Returns (timeMinus now v (24 * 60 * 60 * 1000))
                   else if unit = str ''week''
                   then Returns (timeMinus now v (7 * 24 * 60 * 60 * 1000))
                   else RunsOn)))
      else RunsOn)"

definition monthDate :: "builtins \<Rightarrow> int \<Rightarrow> caps \<Rightarrow> jsdate" where
  "monthDate B now monthMatch =
     (let monthName = printed (capture monthMatch 1);
          day = parseIntOf (capture monthMatch 2);
          year = getFullYear B now;
          date = dateParse B (monthName @ str '' '' @ numberToString day @ str '', ''
                              @ intToString year)
      in case date of
           Time t \<Rightarrow> if t > now then setFullYear B t (year - 1) else date
         | InvalidDate \<Rightarrow> date)"

definition parseFacebookDate :: "builtins \<Rightarrow> int \<Rightarrow> jsstring \<Rightarrow> jsdate option" where
  \<comment> \<open>\<open>now\<close> is the time value of \<^verbatim>\<open>new Date()\<close>; the result \<open>None\<close> is \<^verbatim>\<open>null\<close>, which
      is also what the function's \<^verbatim>\<open>catch\<close> returns\<close>
  "parseFacebookDate B now dateText =
     (case relativeDate now dateText of
        Returns d \<Rightarrow> Some d
      | Throws \<Rightarrow> None
      | RunsOn \<Rightarrow>
          if str_includes (toLowerCase dateText) (str ''yesterday'')
          then Some (Time (now - 24 * 60 * 60 * 1000))
          else (case regex_match True monthRegex dateText of
                  Some monthMatch \<Rightarrow> Some (monthDate B now monthMatch)
                | None \<Rightarrow>
                    (case dateParse B dateText of
                       Time t \<Rightarrow> Some (Time t)
                     | InvalidDate \<Rightarrow> None)))"

subsection \<open>\<^verbatim>\<open>parseDate\<close>\<close>

text \<open>
  The date parser of \<^verbatim>\<open>scraperUtils.js\<close>. The service imports it and never calls it;
  it is here to be compared with \<open>parseFacebookDate\<close>. It first gives the string to the
  engine's date parser and only then tries the relative forms.
\<close>

definition unitsAgoRegex :: "string list \<Rightarrow> regex" where
  \<comment> \<open>\<^verbatim>\<open>/(\d+)\s*(u1|u2|...)s?\s*ago/i\<close>\<close>
  "unitsAgoRegex units =
     seqs [Group 1 (plus (Sym CDigit)), Star (Sym CSpace), Group 2 (alts (map lit units)),
           Opt (lit ''s''), Star (Sym CSpace), lit ''ago'']"

definition agoDate :: "int \<Rightarrow> caps \<Rightarrow> int \<Rightarrow> jsdate" where
  \<comment> \<open>\<^verbatim>\<open>new Date(now.getTime() - parseInt(match[1]) * unitMs)\<close>\<close>
  "agoDate t m unitMs = timeMinus t (parseIntOf (capture m 1)) unitMs"

definition parseDate :: "builtins \<Rightarrow> int \<Rightarrow> jsstring \<Rightarrow> jsdate option" where
  "parseDate B t dateStr =
     (if dateStr = [] then None
      else
        (case dateParse B dateStr of
           Time v \<Rightarrow> Some (Time v)
         | InvalidDate \<Rightarrow>
        (case regex_match True (unitsAgoRegex [''s'', ''sec'', ''second'']) dateStr of
           Some m \<Rightarrow> Some (agoDate t m 1000)
         | None \<Rightarrow>
        (case regex_match True (unitsAgoRegex [''m'', ''min'', ''minute'']) dateStr of
           Some m \<Rightarrow> Some (agoDate t m (60 * 1000))
         | None \<Rightarrow>
        (case regex_match True (unitsAgoRegex [''h'', ''hr'', ''hour'']) dateStr of
           Some m \<Rightarrow> Some (agoDate t m (60 * 60 * 1000))
         | None \<Rightarrow>
        (case regex_match True (unitsAgoRegex [''d'', ''day'']) dateStr of
           Some m \<Rightarrow> Some (agoDate t m (24 * 60 * 60 * 1000))
         | None \<Rightarrow>
        (case regex_match True (unitsAgoRegex [''w'', ''week'']) dateStr of
           Some m \<Rightarrow> Some (agoDate t m (7 * 24 * 60 * 60 * 1000))
         | None \<Rightarrow> None)))))))"

section \<open>The browser driver and the runtime\<close>

text \<open>
  Errors are \<^verbatim>\<open>Error\<close> objects; the handlers of the service read only their message. An
  error raised outside the repository (by the driver, the file system) is an \<open>Error\<close> with
  whatever message the environment gives it.
\<close>

datatype jserror =
    Error jsstring
  | TypeError jsstring
  | ReferenceError jsstring
  | RangeError jsstring

fun message :: "jserror \<Rightarrow> jsstring" where
  "message (Error m) = m"
| "message (TypeError m) = m"
| "message (ReferenceError m) = m"
| "message (RangeError m) = m"

text \<open>
  An argument handed to the driver is a string, or what a lookup in an object literal gives
  when the key is not an own property: \<^verbatim>\<open>undefined\<close> or an inherited built-in.
\<close>

datatype jsarg = AStr jsstring | ABuiltin jsstring | AUndefined

definition argOf :: "jsstring js_prop \<Rightarrow> jsarg" where
  "argOf p = (case p of Own s \<Rightarrow> AStr s | Inherited k \<Rightarrow> ABuiltin k | Absent \<Rightarrow> AUndefined)"

type_synonym elem = nat  \<comment> \<open>an \<^verbatim>\<open>ElementHandle\<close>\<close>

text \<open>
  The calls whose resolved value the service does not use. Each is recorded in the trace of
  the world when it is made. Pointer coordinates are not modelled.
\<close>

datatype action =
    EnsureDir jsstring              \<comment> \<open>\<^verbatim>\<open>fs.ensureDir(dir)\<close>\<close>
  | Launch jsstring                 \<comment> \<open>\<^verbatim>\<open>puppeteer.launch({userDataDir, ...})\<close>\<close>
  | CloseBrowser jsstring           \<comment> \<open>\<^verbatim>\<open>browser.close()\<close> of the browser launched on that directory\<close>
  | NewPage
  | SetUserAgent
  | SetExtraHTTPHeaders
  | EvaluateOnNewDocument
  | SetViewport
  | Goto jsarg                      \<comment> \<open>\<^verbatim>\<open>page.goto(url, ...)\<close>\<close>
  | WaitForSelector jsarg nat       \<comment> \<open>\<^verbatim>\<open>page.waitForSelector(selector, {timeout})\<close>\<close>
  | WaitForNavigation nat           \<comment> \<open>\<^verbatim>\<open>page.waitForNavigation({timeout, ...})\<close>\<close>
  | Click jsarg                     \<comment> \<open>\<^verbatim>\<open>page.click(selector)\<close>\<close>
  | KeyDown jsstring
  | KeyPress jsstring
  | KeyUp jsstring
  | TypeChar jsarg jsstring int     \<comment> \<open>\<^verbatim>\<open>page.type(selector, char, {delay})\<close>\<close>
  | MouseMove int int int           \<comment> \<open>the two jitters and the number of steps\<close>
  | MouseClick int int
  | ElementClick elem               \<comment> \<open>\<^verbatim>\<open>element.click()\<close>\<close>
  | ScrollTo bool                   \<comment> \<open>\<^verbatim>\<open>window.scrollTo\<close> to the bottom (\<open>True\<close>) or half way\<close>
  | WriteJson jsstring              \<comment> \<open>\<^verbatim>\<open>fs.writeJson(file, ...)\<close>\<close>
  | Remove jsstring                 \<comment> \<open>\<^verbatim>\<open>fs.remove(dir)\<close>\<close>
  | Sleep int                       \<comment> \<open>a timer of that many milliseconds\<close>

text \<open>The functions evaluated in the page on an element.\<close>

datatype script =
    TrimmedText          \<comment> \<open>\<^verbatim>\<open>el => el.textContent?.trim() || ''\<close>\<close>
  | TrimmedTextOrTitle   \<comment> \<open>\<^verbatim>\<open>el => el.textContent?.trim() || el.getAttribute('title') || ''\<close>\<close>
  | StatusLinkHref       \<comment> \<open>the \<^verbatim>\<open>href\<close> of the first \<^verbatim>\<open>a[href*="/status/"]\<close> inside, or \<^verbatim>\<open>''\<close>\<close>
  | Href                 \<comment> \<open>\<^verbatim>\<open>el => el.href\<close>\<close>
  | TextContent          \<comment> \<open>\<^verbatim>\<open>el => el.textContent\<close>\<close>
  | GetAttribute jsstring \<comment> \<open>\<^verbatim>\<open>el => el.getAttribute(name)\<close>\<close>

text \<open>
  The state of a \<^verbatim>\<open>waitForSelector\<close> promise when \<^verbatim>\<open>Promise.race\<close> looks at it.
\<close>

datatype probe = Pending | Fulfilled | Rejected jserror

text \<open>
  The environment: for every call the service makes, what it answers and how the state
  \<open>'x\<close> of the outside world (browser, pages, file system, clock) moves on. Nothing is
  assumed about the answers. \<open>sanitizeText\<close> of \<^verbatim>\<open>scraperUtils.js\<close> is not interpreted:
  it is applied to the text and the author of a post and nothing below depends on them.
\<close>

record 'x driver =
  perform :: "action \<Rightarrow> 'x \<Rightarrow> jserror option \<times> 'x"
  pageQuery :: "jsarg \<Rightarrow> 'x \<Rightarrow> (jserror + elem option) \<times> 'x"         \<comment> \<open>\<^verbatim>\<open>page.$(selector)\<close>\<close>
  pageQueryAll :: "jsarg \<Rightarrow> 'x \<Rightarrow> (jserror + elem list) \<times> 'x"        \<comment> \<open>\<^verbatim>\<open>page.$$(selector)\<close>\<close>
  elemQuery :: "elem \<Rightarrow> jsstring \<Rightarrow> 'x \<Rightarrow> (jserror + elem option) \<times> 'x" \<comment> \<open>\<^verbatim>\<open>element.$(selector)\<close>\<close>
  evalString :: "script \<Rightarrow> elem \<Rightarrow> 'x \<Rightarrow> (jserror + jsstring) \<times> 'x"
  evalNullable :: "script \<Rightarrow> elem \<Rightarrow> 'x \<Rightarrow> (jserror + jsstring option) \<times> 'x"
  isVisible :: "elem \<Rightarrow> 'x \<Rightarrow> (jserror + bool) \<times> 'x"
  boundingBox :: "elem \<Rightarrow> 'x \<Rightarrow> (jserror + bool) \<times> 'x"             \<comment> \<open>is there a box\<close>
  probeSelector :: "jsarg \<Rightarrow> 'x \<Rightarrow> probe \<times> 'x"
  currentUrl :: "'x \<Rightarrow> jsstring"                                      \<comment> \<open>\<^verbatim>\<open>page.url()\<close>\<close>
  dateNow :: "'x \<Rightarrow> int"                                                \<comment> \<open>\<^verbatim>\<open>Date.now()\<close>\<close>
  elapse :: "int \<Rightarrow> 'x \<Rightarrow> 'x"                                        \<comment> \<open>a timer runs out\<close>
  mathRandom :: "'x \<Rightarrow> nat \<times> 'x"                                      \<comment> \<open>a draw of \<^verbatim>\<open>Math.random\<close>\<close>
  production :: bool                                                 \<comment> \<open>\<^verbatim>\<open>NODE_ENV === 'production'\<close>\<close>
  sessionDir :: jsstring                                             \<comment> \<open>\<^verbatim>\<open>this.sessionDir\<close>\<close>
  pathJoin :: "jsstring \<Rightarrow> jsstring \<Rightarrow> jsstring"
  base64 :: "jsstring \<Rightarrow> jsstring"
  sanitizeText :: "jsstring \<Rightarrow> jsstring"
  dates :: builtins

record 'x world =
  trace :: "action list"
  ext :: 'x

subsection \<open>Sequencing, exceptions\<close>

type_synonym ('x, 'a) io = "'x world \<Rightarrow> (jserror + 'a) \<times> 'x world"

definition ret :: "'a \<Rightarrow> ('x, 'a) io" where
  "ret a = (\<lambda>w. (Inr a, w))"

definition throw :: "jserror \<Rightarrow> ('x, 'a) io" where
  "throw e = (\<lambda>w. (Inl e, w))"

definition andThen :: "('x, 'a) io \<Rightarrow> ('a \<Rightarrow> ('x, 'b) io) \<Rightarrow> ('x, 'b) io" where
  "andThen m f = (\<lambda>w. case m w of (Inl e, w') \<Rightarrow> (Inl e, w') | (Inr a, w') \<Rightarrow> f a w')"

definition tryCatch :: "('x, 'a) io \<Rightarrow> (jserror \<Rightarrow> ('x, 'a) io) \<Rightarrow> ('x, 'a) io" where
  \<comment> \<open>\<^verbatim>\<open>try { m } catch (error) { h }\<close>\<close>
  "tryCatch m h = (\<lambda>w. case m w of (Inl e, w') \<Rightarrow> h e w' | (Inr a, w') \<Rightarrow> (Inr a, w'))"

definition tryFinally :: "('x, 'a) io \<Rightarrow> ('x, unit) io \<Rightarrow> ('x, 'a) io" where
  \<comment> \<open>\<^verbatim>\<open>try { m } finally { c }\<close>: an exception of \<open>c\<close> replaces the outcome of \<open>m\<close>\<close>
  "tryFinally m c =
     (\<lambda>w. case m w of (r, w') \<Rightarrow> (case c w' of (Inl e, w'') \<Rightarrow> (Inl e, w'') | (Inr _, w'') \<Rightarrow> (r, w'')))"

definition attempt :: "('x, 'a) io \<Rightarrow> ('x, jserror + 'a) io" where
  \<comment> \<open>the outcome of \<open>m\<close> as a value\<close>
  "attempt m = (\<lambda>w. case m w of (r, w') \<Rightarrow> (Inr r, w'))"

definition lift :: "jserror + 'a \<Rightarrow> ('x, 'a) io" where
  "lift r = (\<lambda>w. (r, w))"

fun block :: "('x, unit) io list \<Rightarrow> ('x, unit) io" where
  "block [] = ret ()"
| "block (m # rest) = andThen m (\<lambda>_. block rest)"

definition act :: "'x driver \<Rightarrow> action \<Rightarrow> ('x, unit) io" where
  "act D a =
     (\<lambda>w. case perform D a (ext w) of
             (r, x') \<Rightarrow> ((case r of None \<Rightarrow> Inr () | Some e \<Rightarrow> Inl e),
                         w\<lparr>trace := trace w @ [a], ext := x'\<rparr>))"

definition ask :: "('x \<Rightarrow> (jserror + 'a) \<times> 'x) \<Rightarrow> ('x, 'a) io" where
  "ask q = (\<lambda>w. case q (ext w) of (r, x') \<Rightarrow> (r, w\<lparr>ext := x'\<rparr>))"

definition pause :: "'x driver \<Rightarrow> int \<Rightarrow> ('x, unit) io" where
  \<comment> \<open>\<^verbatim>\<open>await new Promise(resolve => setTimeout(resolve, ms))\<close>: cannot fail\<close>
  "pause D ms = (\<lambda>w. (Inr (), w\<lparr>trace := trace w @ [Sleep ms], ext := elapse D ms (ext w)\<rparr>))"

definition clock :: "'x driver \<Rightarrow> ('x, int) io" where
  "clock D = (\<lambda>w. (Inr (dateNow D (ext w)), w))"

section \<open>scraperConfigs.js\<close>

text \<open>
  Of a platform's configuration the service reads the login URL, the profile URL and the
  three selectors of the login form.
\<close>

record platformConfig =
  loginUrl :: jsstring
  profileUrl :: "jsstring \<Rightarrow> jsstring"
  usernameInput :: jsstring
  passwordInput :: jsstring
  loginButton :: jsstring

definition scraperConfigs :: "(jsstring \<times> platformConfig) list" where
  \<open>scraperConfigs =
     [(str ''twitter'',
        \<lparr>loginUrl = str ''https://twitter.com/login'',
         profileUrl = (\<lambda>username. str ''https://twitter.com/'' @ username),
         usernameInput = str ''input[name="text"]'',
         passwordInput = str ''input[name="password"]'',
         loginButton = str ''[data-testid="LoginForm_Login_Button"]''\<rparr>),
      (str ''instagram'',
        \<lparr>loginUrl = str ''https://www.instagram.com/accounts/login/'',
         profileUrl = (\<lambda>username. str ''https://www.instagram.com/'' @ username @ str ''/''),
         usernameInput = str ''input[name="username"]'',
         passwordInput = str ''input[name="password"]'',
         loginButton = str ''button[type="submit"]''\<rparr>),
      (str ''linkedin'',
        \<lparr>loginUrl = str ''https://www.linkedin.com/login'',
         profileUrl = (\<lambda>username. str ''https://www.linkedin.com/in/'' @ username @ str ''/''),
         usernameInput = str ''#username'',
         passwordInput = str ''#password'',
         loginButton = str ''.btn__primary--large''\<rparr>)]\<close>

text \<open>
  Reading a property of \<^verbatim>\<open>scraperConfigs[platform]\<close>. An inherited built-in has none of
  these properties; reading a property of \<^verbatim>\<open>undefined\<close> throws.
\<close>

definition cannotRead :: "string \<Rightarrow> string \<Rightarrow> jserror" where
  "cannotRead what name =
     TypeError (str ''Cannot read properties of '' @ str what @ str '' (reading '' @ [39]
                @ str name @ [39] @ str '')'')"

definition configLoginUrl :: "platformConfig js_prop \<Rightarrow> jserror + jsarg" where
  \<comment> \<open>\<^verbatim>\<open>config.loginUrl\<close>\<close>
  "configLoginUrl config =
     (case config of
        Own c \<Rightarrow> Inr (AStr (loginUrl c))
      | Inherited k \<Rightarrow> Inr AUndefined
      | Absent \<Rightarrow> Inl (cannotRead ''undefined'' ''loginUrl''))"

definition configSelector ::
  "(platformConfig \<Rightarrow> jsstring) \<Rightarrow> string \<Rightarrow> platformConfig js_prop \<Rightarrow> jserror + jsstring" where
  \<comment> \<open>\<^verbatim>\<open>config.selectors.name\<close>\<close>
  "configSelector field name config =
     (case config of
        Own c \<Rightarrow> Inr (field c)
      | Inherited k \<Rightarrow> Inl (cannotRead ''undefined'' name)
      | Absent \<Rightarrow> Inl (cannotRead ''undefined'' ''selectors''))"

definition configProfileUrl :: "platformConfig js_prop \<Rightarrow> jsstring \<Rightarrow> jserror + jsstring" where
  \<comment> \<open>\<^verbatim>\<open>config.profileUrl(targetUser)\<close>\<close>
  "configProfileUrl config targetUser =
     (case config of
        Own c \<Rightarrow> Inr (profileUrl c targetUser)
      | Inherited k \<Rightarrow> Inl (TypeError (str ''config.profileUrl is not a function''))
      | Absent \<Rightarrow> Inl (cannotRead ''undefined'' ''profileUrl''))"

section \<open>The scraping service\<close>

subsection \<open>Human-like input\<close>

definition randomBetween :: "'x driver \<Rightarrow> int \<Rightarrow> int \<Rightarrow> ('x, int) io" where
  \<comment> \<open>\<^verbatim>\<open>Math.floor(Math.random() * (max - min + 1)) + min\<close>: an integer of the range,
      picked by the environment\<close>
  "randomBetween D lo hi =
     (\<lambda>w. case mathRandom D (ext w) of
             (r, x') \<Rightarrow> (Inr (lo + int (r mod nat (hi - lo + 1))), w\<lparr>ext := x'\<rparr>))"

definition randomDelay :: "'x driver \<Rightarrow> int \<Rightarrow> int \<Rightarrow> ('x, unit) io" where
  "randomDelay D lo hi = andThen (randomBetween D lo hi) (pause D)"

definition waitForSelector :: "'x driver \<Rightarrow> jsstring \<Rightarrow> nat \<Rightarrow> ('x, bool) io" where
  "waitForSelector D selector timeout =
     tryCatch (andThen (act D (WaitForSelector (AStr selector) timeout)) (\<lambda>_. ret True))
              (\<lambda>error. ret False)"

text \<open>\<^verbatim>\<open>for (const char of text)\<close> walks the string by code points.\<close>

fun codePoints :: "jsstring \<Rightarrow> jsstring list" where
  "codePoints [] = []"
| "codePoints [c] = [[c]]"
| "codePoints (c # d # cs) =
     (if 0xD800 \<le> c \<and> c \<le> 0xDBFF \<and> 0xDC00 \<le> d \<and> d \<le> 0xDFFF
      then [c, d] # codePoints cs
      else [c] # codePoints (d # cs))"

fun typeChars :: "'x driver \<Rightarrow> jsstring \<Rightarrow> jsstring list \<Rightarrow> ('x, unit) io" where
  "typeChars D selector [] = ret ()"
| "typeChars D selector (char # rest) =
     andThen (randomBetween D 50 150) (\<lambda>delay.
     andThen (act D (TypeChar (AStr selector) char delay)) (\<lambda>_.
     typeChars D selector rest))"

definition humanLikeTyping :: "'x driver \<Rightarrow> jsstring \<Rightarrow> jsstring option \<Rightarrow> ('x, unit) io" where
  \<comment> \<open>the text is \<open>None\<close> when the caller was given none (\<^verbatim>\<open>undefined\<close>), which the
      \<^verbatim>\<open>for ... of\<close> loop cannot iterate\<close>
  "humanLikeTyping D selector text =
     block [act D (WaitForSelector (AStr selector) 15000),
            act D (Click (AStr selector)),
            act D (KeyDown (str ''Control'')),
            act D (KeyPress (str ''KeyA'')),
            act D (KeyUp (str ''Control'')),
            act D (KeyPress (str ''Backspace'')),
            (case text of
               None \<Rightarrow> throw (TypeError (str ''text is not iterable''))
             | Some t \<Rightarrow> typeChars D selector (codePoints t)),
            randomDelay D 500 1000]"

definition humanLikeClick :: "'x driver \<Rightarrow> jsstring \<Rightarrow> ('x, unit) io" where
  "humanLikeClick D selector =
     andThen (act D (WaitForSelector (AStr selector) 15000)) (\<lambda>_.
     andThen (ask (pageQuery D (AStr selector))) (\<lambda>element.
     case element of
       None \<Rightarrow> throw (cannotRead ''null'' ''boundingBox'')
     | Some el \<Rightarrow>
         andThen (ask (boundingBox D el)) (\<lambda>box.
         if box then
           andThen (randomBetween D (- 5) 5) (\<lambda>dx.
           andThen (randomBetween D (- 5) 5) (\<lambda>dy.
           andThen (randomBetween D 5 10) (\<lambda>steps.
           block [act D (MouseMove dx dy steps),
                  randomDelay D 100 300,
                  act D (MouseClick dx dy)])))
         else act D (Click (AStr selector)))))"

subsection \<open>Browser and page\<close>

definition launchStealthBrowser :: "'x driver \<Rightarrow> jsstring \<Rightarrow> ('x, unit) io" where
  "launchStealthBrowser D userDataDir = act D (Launch userDataDir)"

definition createStealthPage :: "'x driver \<Rightarrow> ('x, unit) io" where
  "createStealthPage D =
     block [act D NewPage, act D SetUserAgent, act D SetExtraHTTPHeaders,
            act D EvaluateOnNewDocument, act D SetViewport]"

subsection \<open>Session check\<close>

definition homeUrls :: "(jsstring \<times> jsstring) list" where
  "homeUrls =
     [(str ''twitter'', str ''https://twitter.com/home''),
      (str ''facebook'', str ''https://www.facebook.com/''),
      (str ''instagram'', str ''https://www.instagram.com/''),
      (str ''linkedin'', str ''https://www.linkedin.com/feed/'')]"

definition loggedInSelectors :: "(jsstring \<times> jsstring) list" where
  \<open>loggedInSelectors =
     [(str ''twitter'',
         str ''[data-testid="SideNav_AccountSwitcher_Button"], [data-testid="AppTabBar_Home_Link"]''),
      (str ''facebook'',
         str ''[data-testid="left_nav_menu_list"], .fbxWelcomeBoxName, [role="navigation"]''),
      (str ''instagram'', str ''[aria-label="Home"], nav[role="navigation"]''),
      (str ''linkedin'', str ''.global-nav__me, .feed-shared-update-v2'')]\<close>

definition checkExistingSession :: "'x driver \<Rightarrow> jsstring \<Rightarrow> ('x, bool) io" where
  "checkExistingSession D platform =
     tryCatch
       (andThen (act D (Goto (argOf (js_get homeUrls platform)))) (\<lambda>_.
        andThen (pause D 3000) (\<lambda>_.
        andThen (ask (pageQuery D (argOf (js_get loggedInSelectors platform)))) (\<lambda>handle.
        ret (handle \<noteq> None)))))
       (\<lambda>error. ret False)"

subsection \<open>Popups\<close>

definition platformPopups :: "(jsstring \<times> jsstring list) list" where
  \<open>platformPopups =
     [(str ''facebook'',
         [str ''[data-cookiebanner="accept_button"]'',
          str ''button[data-cookiebanner="accept_button"]'',
          str ''[aria-label="Allow all cookies"]'',
          str ''._n1s button'',
          str ''[data-testid="cookie-policy-manage-dialog"] button'',
          str ''div[role="dialog"] [aria-label="Close"]'',
          str ''.fbNubFlyoutOuter ._4_j1'']),
      (str ''twitter'',
         [str ''[aria-label="Accept cookies"]'',
          str ''[data-testid="cookie-banner-accept"]'',
          str ''[data-testid="close"]'',
          str ''div[role="dialog"] [aria-label="Close"]'']),
      (str ''instagram'',
         [str ''button[data-cookiebanner="accept_button"]'',
          str ''[data-testid="app-install-banner"] button'',
          str ''button[data-testid="ig-close-button"]'',
          str ''._ac69 button'',
          str ''button[aria-label="Close"]''])]\<close>

fun clickFirstVisible :: "'x driver \<Rightarrow> elem list \<Rightarrow> ('x, unit) io" where
  \<comment> \<open>the inner loop: the first visible element is clicked, then \<^verbatim>\<open>break\<close>\<close>
  "clickFirstVisible D [] = ret ()"
| "clickFirstVisible D (element # rest) =
     andThen (ask (isVisible D element)) (\<lambda>visible.
     if visible
     then andThen (act D (ElementClick element)) (\<lambda>_. randomDelay D 1000 2000)
     else clickFirstVisible D rest)"

fun dismissPopups :: "'x driver \<Rightarrow> jsstring list \<Rightarrow> ('x, unit) io" where
  \<comment> \<open>the outer loop; its body is inside \<^verbatim>\<open>try { } catch { }\<close>\<close>
  "dismissPopups D [] = ret ()"
| "dismissPopups D (selector # rest) =
     andThen (tryCatch (andThen (ask (pageQueryAll D (AStr selector))) (clickFirstVisible D))
                       (\<lambda>error. ret ()))
             (\<lambda>_. dismissPopups D rest)"

definition handlePlatformSpecificPopups :: "'x driver \<Rightarrow> jsstring \<Rightarrow> ('x, unit) io" where
  \<comment> \<open>\<^verbatim>\<open>platformPopups[platform] || []\<close>; an inherited built-in is truthy and cannot be
      iterated\<close>
  "handlePlatformSpecificPopups D platform =
     (case js_get platformPopups platform of
        Own selectors \<Rightarrow> dismissPopups D selectors
      | Inherited k \<Rightarrow> throw (TypeError (str ''selectors is not iterable''))
      | Absent \<Rightarrow> dismissPopups D [])"

subsection \<open>Login\<close>

definition performLoginSteps ::
  "'x driver \<Rightarrow> jsstring \<Rightarrow> jsstring option \<Rightarrow> jsstring option \<Rightarrow> ('x, unit) io" where
  "performLoginSteps D platform email password =
     (let config = js_get scraperConfigs platform in
      andThen (lift (configSelector usernameInput ''usernameInput'' config)) (\<lambda>username.
      andThen (waitForSelector D username 10000) (\<lambda>_.
      andThen (humanLikeTyping D username email) (\<lambda>_.
      andThen (randomDelay D 1000 2000) (\<lambda>_.
      andThen (lift (configSelector passwordInput ''passwordInput'' config)) (\<lambda>pass.
      andThen (waitForSelector D pass 5000) (\<lambda>_.
      andThen (humanLikeTyping D pass password) (\<lambda>_.
      andThen (randomDelay D 1000 2000) (\<lambda>_.
      andThen (lift (configSelector loginButton ''loginButton'' config)) (\<lambda>button.
      andThen (humanLikeClick D button) (\<lambda>_.
      tryCatch (act D (WaitForNavigation 30000)) (\<lambda>error. pause D 3000))))))))))))"

definition handle2FAPrompt :: "'x driver \<Rightarrow> jsstring \<Rightarrow> ('x, unit) io" where
  "handle2FAPrompt D platform =
     (if \<not> production D then
        tryCatch (act D (WaitForNavigation 120000))
          (\<lambda>error. throw (Error (str
             ''2FA timeout - please complete verification within 2 minutes'')))
      else throw (Error (str
             ''2FA required but running in production mode - manual intervention needed'')))"

definition twoFASelectors :: "(jsstring \<times> jsstring) list" where
  \<open>twoFASelectors =
     [(str ''twitter'',
         str ''[data-testid="ocfEnterTextTextInput"], input[name="challenge_response"]''),
      (str ''facebook'',
         str ''input[name="approvals_code"], [data-testid="verification_code_input"]''),
      (str ''instagram'',
         str ''input[name="verificationCode"], input[aria-label="Security code"]''),
      (str ''linkedin'', str ''#challenge-form input, input[name="challengeId"]'')]\<close>

definition successSelectors :: "(jsstring \<times> jsstring) list" where
  \<open>successSelectors =
     [(str ''twitter'',
         str ''[data-testid="SideNav_AccountSwitcher_Button"], [data-testid="AppTabBar_Home_Link"]''),
      (str ''facebook'', str ''[data-testid="left_nav_menu_list"], .fbxWelcomeBoxName''),
      (str ''instagram'', str ''[aria-label="Home"], nav[role="navigation"]''),
      (str ''linkedin'', str ''.global-nav__me, .feed-shared-update-v2'')]\<close>

text \<open>
  A \<^verbatim>\<open>page.waitForSelector(selector, {timeout: 10000})\<close> that is started and not awaited:
  the environment says in which state its promise will be when the race looks at it.
\<close>

definition startWait :: "'x driver \<Rightarrow> jsarg \<Rightarrow> ('x, probe) io" where
  "startWait D selector =
     (\<lambda>w. case probeSelector D selector (ext w) of
             (p, x') \<Rightarrow> (Inr p, w\<lparr>trace := trace w @ [WaitForSelector selector 10000], ext := x'\<rparr>))"

text \<open>
  \<^verbatim>\<open>Promise.race([twoFA, success, 'timeout'])\<close>. The third entry of the array is the
  awaited value of the 3 s timer, a plain string, so the race settles with the first
  entry that is settled when the timer has run out, and with \<^verbatim>\<open>'timeout'\<close> if neither is.
\<close>

definition raceResult :: "probe \<Rightarrow> probe \<Rightarrow> jserror + string" where
  "raceResult twoFA success =
     (case twoFA of
        Fulfilled \<Rightarrow> Inr ''2fa''
      | Rejected e \<Rightarrow> Inl e
      | Pending \<Rightarrow>
          (case success of
             Fulfilled \<Rightarrow> Inr ''success''
           | Rejected e \<Rightarrow> Inl e
           | Pending \<Rightarrow> Inr ''timeout''))"

definition pageUrl :: "'x driver \<Rightarrow> ('x, jsstring) io" where
  "pageUrl D = (\<lambda>w. (Inr (currentUrl D (ext w)), w))"

definition handlePostLoginFlow :: "'x driver \<Rightarrow> jsstring \<Rightarrow> ('x, unit) io" where
  "handlePostLoginFlow D platform =
     tryCatch
       (andThen (startWait D (argOf (js_get twoFASelectors platform))) (\<lambda>twoFA.
        andThen (startWait D (argOf (js_get successSelectors platform))) (\<lambda>success.
        andThen (pause D 3000) (\<lambda>_.
        andThen (lift (raceResult twoFA success)) (\<lambda>result.
        if result = ''2fa'' then handle2FAPrompt D platform
        else if result = ''success'' then ret ()
        else
          andThen (pageUrl D) (\<lambda>url.
          if str_includes url (str ''challenge'') \<or> str_includes url (str ''checkpoint'')
             \<or> str_includes url (str ''verify'')
          then throw (Error (str
                 ''Additional verification required - please complete manually''))
          else ret ()))))))
       (\<lambda>error. throw (Error (str ''Login verification failed: '' @ message error)))"

definition performStealthLogin ::
  "'x driver \<Rightarrow> jsstring \<Rightarrow> jsstring option \<Rightarrow> jsstring option \<Rightarrow> ('x, unit) io" where
  "performStealthLogin D platform email password =
     andThen (lift (configLoginUrl (js_get scraperConfigs platform))) (\<lambda>url.
     block [act D (Goto url),
            handlePlatformSpecificPopups D platform,
            performLoginSteps D platform email password,
            handlePostLoginFlow D platform])"

definition checkSuccessSelectors :: "(jsstring \<times> jsstring) list" where
  \<comment> \<open>the table \<^verbatim>\<open>successSelectors\<close> of \<^verbatim>\<open>checkLoginSuccess\<close>\<close>
  \<open>checkSuccessSelectors =
     [(str ''twitter'',
         str ''[data-testid="SideNav_AccountSwitcher_Button"], [data-testid="AppTabBar_Home_Link"]''),
      (str ''facebook'', str ''[data-testid="left_nav_menu_list"], .fbxWelcomeBoxName''),
      (str ''instagram'', str ''[aria-label="Home"], nav[role="navigation"]''),
      (str ''linkedin'', str ''.global-nav__me'')]\<close>

definition checkLoginSuccess :: "'x driver \<Rightarrow> jsstring \<Rightarrow> ('x, bool) io" where
  "checkLoginSuccess D platform =
     tryCatch
       (andThen (ask (pageQuery D (argOf (js_get checkSuccessSelectors platform)))) (\<lambda>handle.
        ret (handle \<noteq> None)))
       (\<lambda>error. ret False)"

subsection \<open>Session files\<close>

definition saveSessionState :: "'x driver \<Rightarrow> jsstring \<Rightarrow> ('x, unit) io" where
  "saveSessionState D userDataDir =
     tryCatch (act D (WriteJson (pathJoin D userDataDir (str ''session_info.json''))))
              (\<lambda>error. ret ())"

definition cleanSession :: "'x driver \<Rightarrow> jsstring \<Rightarrow> ('x, unit) io" where
  "cleanSession D userDataDir = tryCatch (act D (Remove userDataDir)) (\<lambda>error. ret ())"

subsection \<open>Posts\<close>

text \<open>
  A post. Its \<open>p_date\<close> is the instant the ISO string of the source's \<^verbatim>\<open>date\<close> field
  denotes (\<^verbatim>\<open>toISOString\<close> keeps the milliseconds, so \<^verbatim>\<open>new Date(post.date)\<close> is that
  instant again); \<open>p_timestamp\<close> is \<^verbatim>\<open>postDate.getTime()\<close>.
\<close>

record post =
  p_id :: jsstring
  p_text :: jsstring
  p_author :: jsstring
  p_date :: int
  p_timestamp :: int
  p_platform :: jsstring
  p_url :: jsstring
  p_stats :: stats

definition newDate :: "builtins \<Rightarrow> jsstring option \<Rightarrow> jsdate" where
  \<comment> \<open>\<^verbatim>\<open>new Date(value)\<close> for a string or \<^verbatim>\<open>null\<close>; \<^verbatim>\<open>new Date(null)\<close> is the epoch\<close>
  "newDate B v = (case v of None \<Rightarrow> Time 0 | Some s \<Rightarrow> dateParse B s)"

definition cutoffDate :: "int \<Rightarrow> jsstring \<Rightarrow> jsdate" where
  \<comment> \<open>\<^verbatim>\<open>new Date(Date.now() - parseTimeframe(timeframe))\<close>; a number minus a function or
      an object is \<^verbatim>\<open>NaN\<close>\<close>
  "cutoffDate t timeframe =
     (case parseTimeframe timeframe of Some (Millis d) \<Rightarrow> Time (t - d) | _ \<Rightarrow> InvalidDate)"

definition pushNew :: "post list \<Rightarrow> post option \<Rightarrow> post list" where
  \<comment> \<open>\<^verbatim>\<open>if (data && !posts.find(p => p.id === data.id)) posts.push(data)\<close>\<close>
  "pushNew posts data =
     (case data of
        None \<Rightarrow> posts
      | Some p \<Rightarrow> if p_id p \<in> p_id ` set posts then posts else posts @ [p])"

definition makePost ::
  "'x driver \<Rightarrow> string \<Rightarrow> jsstring \<Rightarrow> jsstring \<Rightarrow> jsdate \<Rightarrow> jsstring \<Rightarrow> stats \<Rightarrow> ('x, post option) io" where
  \<comment> \<open>the object literal both extractors return; \<^verbatim>\<open>toISOString\<close> throws on an invalid date\<close>
  "makePost D name text author postDate postUrl st =
     (case postDate of
        InvalidDate \<Rightarrow> throw (RangeError (str ''Invalid time value''))
      | Time t \<Rightarrow>
          ret (Some \<lparr>p_id = generatePostId (str name) author (Some t) 0,
                     p_text = sanitizeText D text,
                     p_author = sanitizeText D author,
                     p_date = t,
                     p_timestamp = t,
                     p_platform = str name,
                     p_url = postUrl,
                     p_stats = st\<rparr>))"

subsection \<open>Twitter\<close>

definition extractTwitterStats :: "'x driver \<Rightarrow> elem \<Rightarrow> ('x, stats) io" where
  \<open>extractTwitterStats D tweetElement =
     tryCatch
       (andThen (ask (elemQuery D tweetElement (str ''[role="group"]''))) (\<lambda>statsContainer.
        case statsContainer of
          None \<Rightarrow> ret []
        | Some c \<Rightarrow>
            andThen (ask (evalNullable D TextContent c)) (\<lambda>statsText.
            ret (case statsText of None \<Rightarrow> [] | Some s \<Rightarrow> parseStats s (str ''twitter'')))))
       (\<lambda>error. ret [])\<close>

definition elementText :: "'x driver \<Rightarrow> elem option \<Rightarrow> ('x, jsstring) io" where
  \<comment> \<open>\<^verbatim>\<open>el ? await page.evaluate(el => el.textContent?.trim() || '', el) : ''\<close>\<close>
  "elementText D el = (case el of None \<Rightarrow> ret [] | Some e \<Rightarrow> ask (evalString D TrimmedText e))"

definition extractTwitterPostData :: "'x driver \<Rightarrow> elem \<Rightarrow> jsdate \<Rightarrow> ('x, post option) io" where
  \<open>extractTwitterPostData D tweetElement cutoff =
     tryCatch
       (andThen (ask (elemQuery D tweetElement (str ''[data-testid="tweetText"]''))) (\<lambda>textElement.
        andThen (ask (elemQuery D tweetElement (str ''time''))) (\<lambda>timeElement.
        andThen (ask (elemQuery D tweetElement (str ''[data-testid="User-Names"] a''))) (\<lambda>authorElement.
        case timeElement of
          None \<Rightarrow> ret None
        | Some timeEl \<Rightarrow>
            andThen (elementText D textElement) (\<lambda>text.
            andThen (ask (evalNullable D (GetAttribute (str ''datetime'')) timeEl)) (\<lambda>dateStr.
            let postDate = newDate (dates D) dateStr in
            if dateLess postDate cutoff then ret None
            else
              andThen (elementText D authorElement) (\<lambda>author.
              andThen (ask (evalString D StatusLinkHref tweetElement)) (\<lambda>postUrl.
              andThen (extractTwitterStats D tweetElement) (\<lambda>st.
              makePost D ''twitter'' text author postDate postUrl st)))))))))
       (\<lambda>error. ret None)\<close>

fun eachTweet :: "'x driver \<Rightarrow> jsdate \<Rightarrow> elem list \<Rightarrow> post list \<Rightarrow> ('x, post list) io" where
  \<comment> \<open>\<^verbatim>\<open>for (const tweet of tweets) { try { ... } catch { } }\<close>\<close>
  "eachTweet D cutoff [] posts = ret posts"
| "eachTweet D cutoff (tweet # rest) posts =
     andThen (tryCatch (andThen (extractTwitterPostData D tweet cutoff) (\<lambda>tweetData.
                        ret (pushNew posts tweetData)))
                       (\<lambda>error. ret posts))
             (\<lambda>posts'. eachTweet D cutoff rest posts')"

function twitterLoop :: "'x driver \<Rightarrow> jsdate \<Rightarrow> nat \<Rightarrow> post list \<Rightarrow> ('x, post list) io" where
  \<open>twitterLoop D cutoff scrollAttempts posts =
     (if scrollAttempts < 10 \<and> length posts < 50 then
        andThen (ask (pageQueryAll D (AStr (str ''[data-testid="tweet"]'')))) (\<lambda>tweets.
        andThen (eachTweet D cutoff tweets posts) (\<lambda>posts'.
        andThen (act D (ScrollTo True)) (\<lambda>_.
        andThen (randomDelay D 2000 4000) (\<lambda>_.
        twitterLoop D cutoff (scrollAttempts + 1) posts'))))
      else ret posts)\<close>
  by pat_completeness auto
termination
  by (relation "measure (\<lambda>(D, cutoff, scrollAttempts, posts). 10 - scrollAttempts)") auto

declare twitterLoop.simps [simp del]

definition scrapeTwitterPosts :: "'x driver \<Rightarrow> jsstring \<Rightarrow> ('x, post list) io" where
  \<open>scrapeTwitterPosts D timeframe =
     andThen (clock D) (\<lambda>t.
     let cutoff = cutoffDate t timeframe in
     andThen (handlePlatformSpecificPopups D (str ''twitter'')) (\<lambda>_.
     andThen (tryCatch (act D (WaitForSelector (AStr (str ''[data-testid="tweet"]'')) 15000))
                       (\<lambda>error. ret ())) (\<lambda>_.
     andThen (twitterLoop D cutoff 0 []) (\<lambda>posts.
     ret (filter (\<lambda>post. dateGreaterEq (Time (p_date post)) cutoff) posts)))))\<close>

subsection \<open>Facebook\<close>

definition fbTextSelectors :: "jsstring list" where
  \<open>fbTextSelectors =
     [str ''[data-testid="post_message"]'', str ''.userContent'', str ''._5pbx'',
      str ''.text_exposed_show'', str ''[data-ad-preview="message"]'']\<close>

definition fbDateSelectors :: "jsstring list" where
  \<open>fbDateSelectors =
     [str ''abbr[data-utime]'', str ''._5ptz'', str ''.timestampContent'',
      str ''.livetimestamp'', str ''a[role="link"] span[dir="auto"]'']\<close>

definition fbAuthorSelectors :: "jsstring list" where
  \<open>fbAuthorSelectors =
     [str ''.fwb a'', str ''._6qw4'', str ''.profileLink'', str ''.actorName a'',
      str ''h3 a[role="link"]'']\<close>

definition fbStatsSelectors :: "jsstring list" where
  \<open>fbStatsSelectors =
     [str ''._3-8y'', str ''._1g06'', str ''.UFILikesCount'', str ''._4arz'',
      str ''[data-testid="fbFeedStoryUFI"]'']\<close>

fun firstText :: "'x driver \<Rightarrow> elem \<Rightarrow> jsstring list \<Rightarrow> ('x, jsstring) io" where
  \<comment> \<open>the loops for the text and for the author: the first non-empty text wins, a selector
      that throws is skipped\<close>
  "firstText D postElement [] = ret []"
| "firstText D postElement (selector # rest) =
     andThen (attempt (andThen (ask (elemQuery D postElement selector)) (elementText D))) (\<lambda>r.
     case r of
       Inr text \<Rightarrow> if text \<noteq> [] then ret text else firstText D postElement rest
     | Inl error \<Rightarrow> firstText D postElement rest)"

definition utimeDate :: "jsstring \<Rightarrow> jsdate" where
  \<comment> \<open>\<^verbatim>\<open>new Date(parseInt(utime) * 1000)\<close>\<close>
  "utimeDate utime = (case parseInt utime of None \<Rightarrow> InvalidDate | Some n \<Rightarrow> Time (n * 1000))"

definition dateOfElement :: "'x driver \<Rightarrow> elem \<Rightarrow> ('x, jsdate option) io" where
  \<comment> \<open>the body of \<^verbatim>\<open>if (dateElement) { ... }\<close>; \<open>None\<close> when \<^verbatim>\<open>postDate\<close> stays \<^verbatim>\<open>null\<close>\<close>
  "dateOfElement D dateElement =
     andThen (ask (evalNullable D (GetAttribute (str ''data-utime'')) dateElement)) (\<lambda>utime.
     case utime of
       Some (c # cs) \<Rightarrow> ret (Some (utimeDate (c # cs)))
     | _ \<Rightarrow>
         andThen (ask (evalString D TrimmedTextOrTitle dateElement)) (\<lambda>dateText.
         if dateText \<noteq> []
         then andThen (clock D) (\<lambda>t. ret (parseFacebookDate (dates D) t dateText))
         else ret None))"

fun firstDate :: "'x driver \<Rightarrow> elem \<Rightarrow> jsstring list \<Rightarrow> ('x, jsdate option) io" where
  "firstDate D postElement [] = ret None"
| "firstDate D postElement (selector # rest) =
     andThen (attempt (andThen (ask (elemQuery D postElement selector)) (\<lambda>dateElement.
                       case dateElement of
                         None \<Rightarrow> ret None
                       | Some el \<Rightarrow> dateOfElement D el))) (\<lambda>r.
     case r of
       Inr (Some postDate) \<Rightarrow> ret (Some postDate)
     | _ \<Rightarrow> firstDate D postElement rest)"

fun gatherStatsText :: "'x driver \<Rightarrow> elem \<Rightarrow> jsstring list \<Rightarrow> jsstring \<Rightarrow> ('x, jsstring) io" where
  \<comment> \<open>\<^verbatim>\<open>statsText += ' ' + text\<close> for every selector that has an element\<close>
  "gatherStatsText D postElement [] statsText = ret statsText"
| "gatherStatsText D postElement (selector # rest) statsText =
     andThen (attempt (andThen (ask (elemQuery D postElement selector)) (\<lambda>statsContainer.
                       case statsContainer of
                         None \<Rightarrow> ret statsText
                       | Some c \<Rightarrow>
                           andThen (ask (evalNullable D TextContent c)) (\<lambda>text.
                           ret (statsText @ str '' ''
                                @ (case text of None \<Rightarrow> str ''null'' | Some s \<Rightarrow> s)))))) (\<lambda>r.
     case r of
       Inr statsText' \<Rightarrow> gatherStatsText D postElement rest statsText'
     | Inl error \<Rightarrow> gatherStatsText D postElement rest statsText)"

definition extractFacebookStats :: "'x driver \<Rightarrow> elem \<Rightarrow> ('x, stats) io" where
  "extractFacebookStats D postElement =
     tryCatch
       (andThen (gatherStatsText D postElement fbStatsSelectors []) (\<lambda>statsText.
        ret (parseStats statsText (str ''facebook''))))
       (\<lambda>error. ret [])"

definition fbPostUrl :: "'x driver \<Rightarrow> elem \<Rightarrow> ('x, jsstring) io" where
  \<open>fbPostUrl D postElement =
     tryCatch
       (andThen (ask (elemQuery D postElement
                   (str ''a[href*="/posts/"], a[href*="/permalink/"], a[href*="/story"]'')))
          (\<lambda>linkElement.
             case linkElement of None \<Rightarrow> ret [] | Some l \<Rightarrow> ask (evalString D Href l)))
       (\<lambda>error. ret [])\<close>

definition extractFacebookPostData :: "'x driver \<Rightarrow> elem \<Rightarrow> jsdate \<Rightarrow> ('x, post option) io" where
  "extractFacebookPostData D postElement cutoff =
     tryCatch
       (andThen (firstText D postElement fbTextSelectors) (\<lambda>text.
        andThen (firstDate D postElement fbDateSelectors) (\<lambda>found.
        case found of
          None \<Rightarrow> ret None
        | Some postDate \<Rightarrow>
            if dateLess postDate cutoff then ret None
            else
              andThen (firstText D postElement fbAuthorSelectors) (\<lambda>author.
              andThen (fbPostUrl D postElement) (\<lambda>postUrl.
              andThen (extractFacebookStats D postElement) (\<lambda>st.
              makePost D ''facebook'' text author postDate postUrl st))))))
       (\<lambda>error. ret None)"

fun eachFbPost :: "'x driver \<Rightarrow> jsdate \<Rightarrow> elem list \<Rightarrow> post list \<Rightarrow> ('x, post list) io" where
  "eachFbPost D cutoff [] posts = ret posts"
| "eachFbPost D cutoff (p # rest) posts =
     andThen (tryCatch (andThen (extractFacebookPostData D p cutoff) (\<lambda>postData.
                        ret (pushNew posts postData)))
                       (\<lambda>error. ret posts))
             (\<lambda>posts'. eachFbPost D cutoff rest posts')"

function facebookLoop :: "'x driver \<Rightarrow> jsdate \<Rightarrow> nat \<Rightarrow> post list \<Rightarrow> ('x, post list) io" where
  \<open>facebookLoop D cutoff scrollAttempts posts =
     (if scrollAttempts < 8 \<and> length posts < 40 then
        andThen (ask (pageQueryAll D
                   (AStr (str ''[data-pagelet="FeedUnit"], [role="article"]'')))) (\<lambda>fbPosts.
        andThen (eachFbPost D cutoff fbPosts posts) (\<lambda>posts'.
        andThen (act D (ScrollTo False)) (\<lambda>_.
        andThen (randomDelay D 2000 3000) (\<lambda>_.
        andThen (act D (ScrollTo True)) (\<lambda>_.
        andThen (randomDelay D 3000 5000) (\<lambda>_.
        facebookLoop D cutoff (scrollAttempts + 1) posts'))))))
      else ret posts)\<close>
  by pat_completeness auto
termination
  by (relation "measure (\<lambda>(D, cutoff, scrollAttempts, posts). 8 - scrollAttempts)") auto

declare facebookLoop.simps [simp del]

definition scrapeFacebookPosts :: "'x driver \<Rightarrow> jsstring \<Rightarrow> ('x, post list) io" where
  \<open>scrapeFacebookPosts D timeframe =
     andThen (clock D) (\<lambda>t.
     let cutoff = cutoffDate t timeframe in
     andThen (handlePlatformSpecificPopups D (str ''facebook'')) (\<lambda>_.
     andThen (tryCatch (act D (WaitForSelector
                          (AStr (str ''[data-pagelet="FeedUnit"], [role="article"]'')) 15000))
                       (\<lambda>error. ret ())) (\<lambda>_.
     andThen (facebookLoop D cutoff 0 []) (\<lambda>posts.
     ret (filter (\<lambda>post. dateGreaterEq (Time (p_date post)) cutoff) posts)))))\<close>

subsection \<open>The two entry points\<close>

definition scrapeTargetProfile ::
  "'x driver \<Rightarrow> jsstring \<Rightarrow> jsstring \<Rightarrow> jsstring \<Rightarrow> ('x, post list) io" where
  "scrapeTargetProfile D platform targetUser timeframe =
     andThen (lift (configProfileUrl (js_get scraperConfigs platform) targetUser)) (\<lambda>url.
     andThen (act D (Goto (AStr url))) (\<lambda>_.
     andThen (pause D 3000) (\<lambda>_.
     if platform = str ''twitter'' then scrapeTwitterPosts D timeframe
     else if platform = str ''facebook'' then scrapeFacebookPosts D timeframe
     else throw (Error (str ''Scraping not implemented for platform: '' @ platform)))))"

record scrapeRequest =
  q_email :: jsstring
  q_password :: "jsstring option"
  q_targetUser :: jsstring
  q_platform :: jsstring
  q_timeframe :: "jsstring option"    \<comment> \<open>\<^verbatim>\<open>'7d'\<close> when not given\<close>
  q_sessionId :: "jsstring option"

record scrapeResult =
  r_platform :: jsstring
  r_targetUser :: jsstring
  r_timeframe :: jsstring
  totalPosts :: nat
  scrapedAt :: int
  sessionUsed :: bool
  r_posts :: "post list"

definition effectiveTimeframe :: "scrapeRequest \<Rightarrow> jsstring" where
  "effectiveTimeframe q = (case q_timeframe q of None \<Rightarrow> str ''7d'' | Some t \<Rightarrow> t)"

definition userDataDirOf :: "'x driver \<Rightarrow> scrapeRequest \<Rightarrow> jsstring" where
  \<comment> \<open>the session directory of a request: named by the session id when there is a non-empty
      one, else by the first 8 characters of the Base64 of the email\<close>
  "userDataDirOf D q =
     (case q_sessionId q of
        Some (c # cs) \<Rightarrow> pathJoin D (sessionDir D) (q_platform q @ [95] @ (c # cs))
      | _ \<Rightarrow> pathJoin D (sessionDir D) (q_platform q @ [95] @ take 8 (base64 D (q_email q))))"

fun joinWith :: "jsstring \<Rightarrow> jsstring list \<Rightarrow> jsstring" where
  "joinWith sep [] = []"
| "joinWith sep [x] = x"
| "joinWith sep (x # xs) = x @ sep @ joinWith sep xs"

text \<open>
  The \<^verbatim>\<open>catch (error)\<close> block of \<open>scrapeWithCredentials\<close>. It names \<^verbatim>\<open>userDataDir\<close>;
  the argument \<open>inScope\<close> is the value that identifier has where the block stands, \<open>None\<close>
  if no binding of it is visible there, in which case evaluating it throws.
\<close>

definition scrapeCatch :: "'x driver \<Rightarrow> jsstring option \<Rightarrow> jserror \<Rightarrow> ('x, 'a) io" where
  "scrapeCatch D inScope error =
     (if str_includes (message error) (str ''login'')
         \<or> str_includes (message error) (str ''authentication'')
      then (case inScope of
              None \<Rightarrow> throw (ReferenceError (str ''userDataDir is not defined''))
            | Some userDataDir \<Rightarrow>
                andThen (cleanSession D userDataDir) (\<lambda>_.
                throw (Error (str ''Authentication failed: '' @ message error
                              @ str ''. Session cleared - please retry.''))))
      else throw error)"

text \<open>
  \<^verbatim>\<open>const userDataDir\<close> is declared inside the \<^verbatim>\<open>try\<close> block, so the \<^verbatim>\<open>catch\<close> block
  is outside its scope and no other binding of the name exists: the handler runs with
  \<open>None\<close>. The variable \<^verbatim>\<open>browser\<close> is assigned by the launch, and the \<^verbatim>\<open>finally\<close> block
  closes only an assigned browser, and only in production: a failure before the launch has
  returned goes through the handler alone. \<open>scrapeSession\<close> is the function from the point
  where \<^verbatim>\<open>browser\<close> is assigned: the rest of the \<^verbatim>\<open>try\<close> block with the \<^verbatim>\<open>catch\<close> and the
  \<^verbatim>\<open>finally\<close> blocks.
\<close>

definition scrapeSession :: "'x driver \<Rightarrow> scrapeRequest \<Rightarrow> jsstring \<Rightarrow> ('x, scrapeResult) io" where
  "scrapeSession D q userDataDir =
     tryFinally
       (tryCatch
          (andThen (createStealthPage D) (\<lambda>_.
           andThen (checkExistingSession D (q_platform q)) (\<lambda>isLoggedIn.
           andThen (if \<not> isLoggedIn
                    then andThen (performStealthLogin D (q_platform q) (Some (q_email q))
                                    (q_password q)) (\<lambda>_.
                         saveSessionState D userDataDir)
                    else ret ()) (\<lambda>_.
           andThen (scrapeTargetProfile D (q_platform q) (q_targetUser q)
                      (effectiveTimeframe q)) (\<lambda>posts.
           andThen (clock D) (\<lambda>t.
           ret \<lparr>r_platform = q_platform q,
                r_targetUser = q_targetUser q,
                r_timeframe = effectiveTimeframe q,
                totalPosts = length posts,
                scrapedAt = t,
                sessionUsed = isLoggedIn,
                r_posts = posts\<rparr>))))))
          (scrapeCatch D None))
       (if production D then act D (CloseBrowser userDataDir) else ret ())"

definition scrapeWithCredentials :: "'x driver \<Rightarrow> scrapeRequest \<Rightarrow> ('x, scrapeResult) io" where
  "scrapeWithCredentials D q =
     (case js_get scraperConfigs (q_platform q) of
        Absent \<Rightarrow>
          throw (Error (str ''Unsupported platform: '' @ q_platform q
                        @ str ''. Supported platforms: ''
                        @ joinWith (str '', '') (map fst scraperConfigs)))
      | _ \<Rightarrow>
          (let userDataDir = userDataDirOf D q in
           andThen (tryCatch (andThen (act D (EnsureDir (sessionDir D))) (\<lambda>_.
                              launchStealthBrowser D userDataDir))
                             (scrapeCatch D None)) (\<lambda>_.
           scrapeSession D q userDataDir)))"

text \<open>
  In \<open>testCredentials\<close> the \<^verbatim>\<open>finally\<close> block closes the browser whenever the launch has
  assigned one, in every environment; it stands after the \<^verbatim>\<open>catch\<close> block, which turns
  every exception of the \<^verbatim>\<open>try\<close> block into a result.
\<close>

record testRequest =
  t_email :: "jsstring option"
  t_password :: "jsstring option"
  t_platform :: jsstring
  t_sessionId :: "jsstring option"

record testResult =
  loginSuccessful :: bool
  requires2FA :: bool
  sessionSaved :: bool

definition testDataDirOf :: "'x driver \<Rightarrow> testRequest \<Rightarrow> int \<Rightarrow> jsstring" where
  "testDataDirOf D q t =
     (case t_sessionId q of
        Some (c # cs) \<Rightarrow>
          pathJoin D (sessionDir D) (str ''test_'' @ t_platform q @ [95] @ (c # cs))
      | _ \<Rightarrow> pathJoin D (sessionDir D) (str ''test_'' @ t_platform q @ [95] @ intToString t))"

definition testCatch :: "jserror \<Rightarrow> testResult" where
  "testCatch error =
     \<lparr>loginSuccessful = False,
      requires2FA = (str_includes (message error) (str ''2FA'')
                     \<or> str_includes (message error) (str ''verification'')),
      sessionSaved = False\<rparr>"

text \<open>The statements of the \<^verbatim>\<open>try\<close> block that follow the launch of the browser.\<close>

definition testLogin :: "'x driver \<Rightarrow> testRequest \<Rightarrow> ('x, testResult) io" where
  "testLogin D q =
     andThen (createStealthPage D) (\<lambda>_.
     andThen (lift (configLoginUrl (js_get scraperConfigs (t_platform q)))) (\<lambda>url.
     andThen (act D (Goto url)) (\<lambda>_.
     andThen (handlePlatformSpecificPopups D (t_platform q)) (\<lambda>_.
     andThen (performLoginSteps D (t_platform q) (t_email q) (t_password q)) (\<lambda>_.
     andThen (randomDelay D 3000 5000) (\<lambda>_.
     andThen (checkLoginSuccess D (t_platform q)) (\<lambda>ok.
     ret \<lparr>loginSuccessful = ok, requires2FA = False, sessionSaved = ok\<rparr>)))))))"

definition testCredentials :: "'x driver \<Rightarrow> testRequest \<Rightarrow> ('x, testResult) io" where
  "testCredentials D q =
     andThen (clock D) (\<lambda>t.
     let userDataDir = testDataDirOf D q t in
     andThen (attempt (launchStealthBrowser D userDataDir)) (\<lambda>launched.
     case launched of
       Inl error \<Rightarrow> ret (testCatch error)
     | Inr _ \<Rightarrow>
         tryFinally
           (tryCatch (testLogin D q) (\<lambda>error. ret (testCatch error)))
           (act D (CloseBrowser userDataDir))))"

text \<open>
  The \<^verbatim>\<open>try\<close> block of \<open>testCredentials\<close> on its own, without the \<^verbatim>\<open>catch\<close> and the
  \<^verbatim>\<open>finally\<close> blocks: what it returns, or the exception it raises.
\<close>

definition testTry :: "'x driver \<Rightarrow> testRequest \<Rightarrow> ('x, testResult) io" where
  "testTry D q =
     andThen (clock D) (\<lambda>t.
     let userDataDir = testDataDirOf D q t in
     andThen (launchStealthBrowser D userDataDir) (\<lambda>_.
     testLogin D q))"

section \<open>Specification vocabulary\<close>

text \<open>
  \<open>returns m Q\<close>: whenever \<open>m\<close> returns normally, the value satisfies \<open>Q\<close>.
  \<open>emits P m\<close>: \<open>m\<close> only appends to the trace, and every call it appends satisfies \<open>P\<close>.
\<close>

definition returns :: "('x, 'a) io \<Rightarrow> ('a \<Rightarrow> bool) \<Rightarrow> bool" where
  "returns m Q = (\<forall>w a w'. m w = (Inr a, w') \<longrightarrow> Q a)"

definition emits :: "(action \<Rightarrow> bool) \<Rightarrow> ('x, 'a) io \<Rightarrow> bool" where
  "emits P m = (\<forall>w r w'. m w = (r, w') \<longrightarrow> (\<exists>as. trace w' = trace w @ as \<and> list_all P as))"

fun isRemove :: "action \<Rightarrow> bool" where
  "isRemove (Remove dir) = True"
| "isRemove _ = False"

text \<open>The input the login makes: keyboard, pointer, form navigation, the session file.\<close>

fun isLoginStep :: "action \<Rightarrow> bool" where
  "isLoginStep (TypeChar selector char delay) = True"
| "isLoginStep (Click selector) = True"
| "isLoginStep (KeyDown k) = True"
| "isLoginStep (KeyPress k) = True"
| "isLoginStep (KeyUp k) = True"
| "isLoginStep (MouseMove dx dy steps) = True"
| "isLoginStep (MouseClick dx dy) = True"
| "isLoginStep (WaitForNavigation timeout) = True"
| "isLoginStep (WriteJson file) = True"
| "isLoginStep _ = False"

definition quiet :: "action \<Rightarrow> bool" where
  "quiet a = (\<not> isLoginStep a \<and> \<not> isRemove a)"

text \<open>
  \<open>triple Pre m P Post\<close>: started in a world whose environment satisfies \<open>Pre\<close>, \<open>m\<close>
  appends to the trace only calls that satisfy \<open>P\<close>, and if it returns \<open>a\<close> the environment
  then satisfies \<open>Post a\<close>.
\<close>

definition triple ::
  "('x \<Rightarrow> bool) \<Rightarrow> ('x, 'a) io \<Rightarrow> (action \<Rightarrow> bool) \<Rightarrow> ('a \<Rightarrow> 'x \<Rightarrow> bool) \<Rightarrow> bool" where
  "triple Pre m P Post =
     (\<forall>w r w'. Pre (ext w) \<longrightarrow> m w = (r, w') \<longrightarrow>
        (\<exists>as. trace w' = trace w @ as \<and> list_all P as)
        \<and> (\<forall>a. r = Inr a \<longrightarrow> Post a (ext w')))"

text \<open>The calls that configure a new page.\<close>

definition isPageSetup :: "action \<Rightarrow> bool" where
  "isPageSetup a =
     (a \<in> {NewPage, SetUserAgent, SetExtraHTTPHeaders, EvaluateOnNewDocument, SetViewport})"

text \<open>
  A persisted session that is valid. The session of an account lives in the browser
  profile at a directory \<open>dir\<close>, outside the service; two properties of the states of the
  environment describe it. \<open>Stored x\<close>: in \<open>x\<close> the profile at \<open>dir\<close> holds a session that
  the platform accepts. \<open>Live x\<close>: in \<open>x\<close> a browser is open on that profile and carries
  the session. The environment holds the session when

    \<^item> creating a directory leaves a stored session stored;
    \<^item> a browser that is launched on \<open>dir\<close> while the session is stored carries it;
    \<^item> configuring a new page keeps it;
    \<^item> in a browser that carries it the home page of the platform loads and, three
      seconds later, shows the logged-in marker of the platform.

  Nothing is said of a browser launched on another directory, and nothing of the states in
  which no session is stored.
\<close>

definition holdsSession ::
  "'x driver \<Rightarrow> jsstring \<Rightarrow> jsstring \<Rightarrow> ('x \<Rightarrow> bool) \<Rightarrow> ('x \<Rightarrow> bool) \<Rightarrow> bool" where
  "holdsSession D platform dir Stored Live =
     ((\<forall>x d. Stored x \<longrightarrow> Stored (snd (perform D (EnsureDir d) x)))
      \<and> (\<forall>x. Stored x \<longrightarrow> fst (perform D (Launch dir) x) = None
            \<longrightarrow> Live (snd (perform D (Launch dir) x)))
      \<and> (\<forall>x a. Live x \<longrightarrow> isPageSetup a \<longrightarrow> Live (snd (perform D a x)))
      \<and> (\<forall>x. Live x \<longrightarrow>
            fst (perform D (Goto (argOf (js_get homeUrls platform))) x) = None
            \<and> (\<exists>h. fst (pageQuery D (argOf (js_get loggedInSelectors platform))
                        (elapse D 3000
                           (snd (perform D (Goto (argOf (js_get homeUrls platform))) x))))
                     = Inr (Some h))))"

section \<open>A concrete environment\<close>

text \<open>
  A small world to run the service in: a Twitter profile page with three tweet elements
  (1, 2 and 3), of which 3 repeats the author and the time of 1; every call succeeds,
  every page-level selector finds an element (so the logged-in marker is present), and
  nothing on the page changes. The clock stands at 2023-11-06T00:00:00Z.
\<close>

definition demoDates :: builtins where
  "demoDates =
     \<lparr>dateParse = (\<lambda>s. if s = str ''2023-11-04T10:30:00.000Z'' then Time 1699093800000
                        else if s = str ''2023-11-05T08:00:00.000Z'' then Time 1699171200000
                        else InvalidDate),
      getFullYear = (\<lambda>t. 2023),
      setFullYear = (\<lambda>t y. Time t)\<rparr>"

definition demoDriver :: "unit driver" where
  \<open>demoDriver =
     \<lparr>perform = (\<lambda>a x. (None, x)),
      pageQuery = (\<lambda>selector x. (Inr (Some 100), x)),
      pageQueryAll = (\<lambda>selector x.
         (Inr (if selector = AStr (str ''[data-testid="tweet"]'') then [1, 2, 3] else []), x)),
      elemQuery = (\<lambda>el selector x.
         (Inr (if selector = str ''time'' then Some (10 * el + 1)
               else if selector = str ''[data-testid="tweetText"]'' then Some (10 * el + 2)
               else if selector = str ''[data-testid="User-Names"] a'' then Some (10 * el + 3)
               else None), x)),
      evalString = (\<lambda>sc el x.
         (Inr (if sc = TrimmedText \<and> el = 23 then str ''bob''
               else if sc = TrimmedText \<and> (el = 13 \<or> el = 33) then str ''ann''
               else if sc = TrimmedText then str ''hello''
               else []), x)),
      evalNullable = (\<lambda>sc el x.
         (Inr (if el = 21 then Some (str ''2023-11-05T08:00:00.000Z'')
               else Some (str ''2023-11-04T10:30:00.000Z'')), x)),
      isVisible = (\<lambda>el x. (Inr False, x)),
      boundingBox = (\<lambda>el x. (Inr True, x)),
      probeSelector = (\<lambda>selector x. (Pending, x)),
      currentUrl = (\<lambda>x. str ''https://twitter.com/home''),
      dateNow = (\<lambda>x. 1699228800000),
      elapse = (\<lambda>n x. x),
      mathRandom = (\<lambda>x. (0, x)),
      production = True,
      sessionDir = str ''/app/sessions'',
      pathJoin = (\<lambda>a b. a @ [47] @ b),
      base64 = (\<lambda>s. str ''YW5uQGV4YW1wbGUuY29t''),
      sanitizeText = (\<lambda>s. s),
      dates = demoDates\<rparr>\<close>

definition demoRequest :: scrapeRequest where
  "demoRequest =
     \<lparr>q_email = str ''ann@example.com'',
      q_password = Some (str ''secret''),
      q_targetUser = str ''bob'',
      q_platform = str ''twitter'',
      q_timeframe = Some (str ''7d''),
      q_sessionId = None\<rparr>"

definition demoWorld :: "unit world" where
  "demoWorld = \<lparr>trace = [], ext = ()\<rparr>"

definition demoResult :: scrapeResult where
  "demoResult =
     \<lparr>r_platform = str ''twitter'',
      r_targetUser = str ''bob'',
      r_timeframe = str ''7d'',
      totalPosts = 2,
      scrapedAt = 1699228800000,
      sessionUsed = True,
      r_posts =
        [\<lparr>p_id = str ''twitter_ann_1699093800000_0'', p_text = str ''hello'',
          p_author = str ''ann'', p_date = 1699093800000, p_timestamp = 1699093800000,
          p_platform = str ''twitter'', p_url = [], p_stats = []\<rparr>,
         \<lparr>p_id = str ''twitter_bob_1699171200000_0'', p_text = str ''hello'',
          p_author = str ''bob'', p_date = 1699171200000, p_timestamp = 1699171200000,
          p_platform = str ''twitter'', p_url = [], p_stats = []\<rparr>]\<rparr>"

definition demoDir :: jsstring where
  "demoDir = str ''/app/sessions/twitter_YW5uQGV4''"

definition demoTrace :: "action list" where
  \<open>demoTrace =
     [EnsureDir (str ''/app/sessions''), Launch demoDir,
      NewPage, SetUserAgent, SetExtraHTTPHeaders, EvaluateOnNewDocument, SetViewport,
      Goto (AStr (str ''https://twitter.com/home'')), Sleep 3000,
      Goto (AStr (str ''https://twitter.com/bob'')), Sleep 3000,
      WaitForSelector (AStr (str ''[data-testid="tweet"]'')) 15000,
      ScrollTo True, Sleep 2000, ScrollTo True, Sleep 2000, ScrollTo True, Sleep 2000,
      ScrollTo True, Sleep 2000, ScrollTo True, Sleep 2000, ScrollTo True, Sleep 2000,
      ScrollTo True, Sleep 2000, ScrollTo True, Sleep 2000, ScrollTo True, Sleep 2000,
      ScrollTo True, Sleep 2000,
      CloseBrowser demoDir]\<close>

text \<open>
  The same world without a session: the logged-in marker is absent, and after the
  credentials are submitted the 2FA input shows up. The service runs in production.
\<close>

definition twoFADriver :: "unit driver" where
  \<open>twoFADriver =
     demoDriver
       \<lparr>pageQuery := (\<lambda>selector x.
          (Inr (if selector = AStr (str
                  ''[data-testid="SideNav_AccountSwitcher_Button"], [data-testid="AppTabBar_Home_Link"]'')
                then None else Some 100), x)),
        probeSelector := (\<lambda>selector x.
          (if selector = AStr (str
                ''[data-testid="ocfEnterTextTextInput"], input[name="challenge_response"]'')
           then Fulfilled else Pending, x))\<rparr>\<close>

text \<open>
  No session either, and the navigation to the login page fails; the driver's message
  names the URL, as Puppeteer's does.
\<close>

definition loginDownDriver :: "unit driver" where
  \<open>loginDownDriver =
     twoFADriver
       \<lparr>perform := (\<lambda>a x.
          (if a = Goto (AStr (str ''https://twitter.com/login''))
           then Some (Error (str ''net::ERR_CONNECTION_RESET at https://twitter.com/login''))
           else None, x))\<rparr>\<close>

text \<open>A world in which closing the browser fails.\<close>

definition closeFailDriver :: "unit driver" where
  "closeFailDriver =
     demoDriver
       \<lparr>perform := (\<lambda>a x.
          (case a of
             CloseBrowser dir \<Rightarrow> Some (Error (str ''Protocol error: Connection closed.''))
           | _ \<Rightarrow> None, x))\<rparr>"

definition demoTestRequest :: testRequest where
  "demoTestRequest =
     \<lparr>t_email = Some (str ''ann@example.com''),
      t_password = Some (str ''secret''),
      t_platform = str ''twitter'',
      t_sessionId = Some (str ''s1'')\<rparr>"

definition unsupportedTestRequest :: testRequest where
  "unsupportedTestRequest = demoTestRequest\<lparr>t_platform := str ''facebook''\<rparr>"

text \<open>
  The world in which a first call for \<open>demoRequest\<close> has launched its browser and is
  suspended at its next \<^verbatim>\<open>await\<close>.
\<close>

definition firstCallSuspended :: "unit world" where
  "firstCallSuspended =
     snd (andThen (act demoDriver (EnsureDir (sessionDir demoDriver)))
                  (\<lambda>_. launchStealthBrowser demoDriver (userDataDirOf demoDriver demoRequest))
            demoWorld)"

text \<open>The browsers a trace leaves open, if every launch in it succeeded.\<close>

fun openBrowsers :: "action list \<Rightarrow> jsstring list \<Rightarrow> jsstring list" where
  "openBrowsers [] opened = opened"
| "openBrowsers (Launch dir # rest) opened = openBrowsers rest (dir # opened)"
| "openBrowsers (CloseBrowser dir # rest) opened = openBrowsers rest (remove1 dir opened)"
| "openBrowsers (a # rest) opened = openBrowsers rest opened"

subsection \<open>A world that keeps sessions in profiles\<close>

text \<open>
  The state of this world: the profile directory of the browser that is open, if one is,
  and the profile directories that hold a session. The page is the one of \<open>demoDriver\<close>,
  except that the logged-in marker of Twitter is found only in a browser whose profile
  holds a session. Launching sets the open profile and closing clears it; the click that
  submits the login form stores a session in the open profile; removing a directory
  removes its session.
\<close>

record browserState =
  openProfile :: "jsstring option"
  loggedProfiles :: "jsstring list"

definition loggedIn :: "browserState \<Rightarrow> bool" where
  "loggedIn x =
     (case openProfile x of None \<Rightarrow> False | Some dir \<Rightarrow> dir \<in> set (loggedProfiles x))"

definition twitterMarker :: jsarg where
  \<open>twitterMarker = AStr (str
     ''[data-testid="SideNav_AccountSwitcher_Button"], [data-testid="AppTabBar_Home_Link"]'')\<close>

definition sessionDriver :: "browserState driver" where
  \<open>sessionDriver =
     \<lparr>perform = (\<lambda>a x.
        (None,
         case a of
           Launch dir \<Rightarrow> x\<lparr>openProfile := Some dir\<rparr>
         | CloseBrowser dir \<Rightarrow> x\<lparr>openProfile := None\<rparr>
         | MouseClick dx dy \<Rightarrow>
             (case openProfile x of
                None \<Rightarrow> x
              | Some dir \<Rightarrow> x\<lparr>loggedProfiles := dir # loggedProfiles x\<rparr>)
         | Remove dir \<Rightarrow> x\<lparr>loggedProfiles := removeAll dir (loggedProfiles x)\<rparr>
         | _ \<Rightarrow> x)),
      pageQuery = (\<lambda>selector x.
         (Inr (if selector = twitterMarker \<and> \<not> loggedIn x then None else Some 100), x)),
      pageQueryAll = (\<lambda>selector x.
         (Inr (if selector = AStr (str ''[data-testid="tweet"]'') then [1, 2, 3] else []), x)),
      elemQuery = (\<lambda>el selector x.
         (Inr (if selector = str ''time'' then Some (10 * el + 1)
               else if selector = str ''[data-testid="tweetText"]'' then Some (10 * el + 2)
               else if selector = str ''[data-testid="User-Names"] a'' then Some (10 * el + 3)
               else None), x)),
      evalString = (\<lambda>sc el x.
         (Inr (if sc = TrimmedText \<and> el = 23 then str ''bob''
               else if sc = TrimmedText \<and> (el = 13 \<or> el = 33) then str ''ann''
               else if sc = TrimmedText then str ''hello''
               else []), x)),
      evalNullable = (\<lambda>sc el x.
         (Inr (if el = 21 then Some (str ''2023-11-05T08:00:00.000Z'')
               else Some (str ''2023-11-04T10:30:00.000Z'')), x)),
      isVisible = (\<lambda>el x. (Inr False, x)),
      boundingBox = (\<lambda>el x. (Inr True, x)),
      probeSelector = (\<lambda>selector x.
         (if selector = twitterMarker \<and> loggedIn x then Fulfilled else Pending, x)),
      currentUrl = (\<lambda>x. str ''https://twitter.com/home''),
      dateNow = (\<lambda>x. 1699228800000),
      elapse = (\<lambda>n x. x),
      mathRandom = (\<lambda>x. (0, x)),
      production = True,
      sessionDir = str ''/app/sessions'',
      pathJoin = (\<lambda>a b. a @ [47] @ b),
      base64 = (\<lambda>s. str ''YW5uQGV4YW1wbGUuY29t''),
      sanitizeText = (\<lambda>s. s),
      dates = demoDates\<rparr>\<close>

text \<open>No browser is open and no profile holds a session.\<close>

definition freshWorld :: "browserState world" where
  "freshWorld = \<lparr>trace = [], ext = \<lparr>openProfile = None, loggedProfiles = []\<rparr>\<rparr>"

text \<open>
  The world a first call for \<open>demoRequest\<close> leaves behind, and a later request for the same
  platform and account, which brings no password.
\<close>

definition afterFirstCall :: "browserState world" where
  "afterFirstCall = snd (scrapeWithCredentials sessionDriver demoRequest freshWorld)"

definition returningRequest :: scrapeRequest where
  "returningRequest = demoRequest\<lparr>q_password := None\<rparr>"

text \<open>
  What the first call does: it finds no session, so between the session check and the
  scrape of \<open>demoTrace\<close> it logs in.
\<close>

definition typed :: "jsstring \<Rightarrow> jsstring \<Rightarrow> action list" where
  "typed selector text =
     [WaitForSelector (AStr selector) 15000, Click (AStr selector),
      KeyDown (str ''Control''), KeyPress (str ''KeyA''), KeyUp (str ''Control''),
      KeyPress (str ''Backspace'')]
     @ map (\<lambda>c. TypeChar (AStr selector) [c] 50) text
     @ [Sleep 500]"

definition loginTrace :: "action list" where
  \<open>loginTrace =
     take 9 demoTrace
     @ [Goto (AStr (str ''https://twitter.com/login'')),
        WaitForSelector (AStr (str ''input[name="text"]'')) 10000]
     @ typed (str ''input[name="text"]'') (str ''ann@example.com'')
     @ [Sleep 1000, WaitForSelector (AStr (str ''input[name="password"]'')) 5000]
     @ typed (str ''input[name="password"]'') (str ''secret'')
     @ [Sleep 1000,
        WaitForSelector (AStr (str ''[data-testid="LoginForm_Login_Button"]'')) 15000,
        MouseMove (- 5) (- 5) 5, Sleep 100, MouseClick (- 5) (- 5),
        WaitForNavigation 30000,
        WaitForSelector (AStr (str
          ''[data-testid="ocfEnterTextTextInput"], input[name="challenge_response"]'')) 10000,
        WaitForSelector twitterMarker 10000,
        Sleep 3000,
        WriteJson (str ''/app/sessions/twitter_YW5uQGV4/session_info.json'')]
     @ drop 9 demoTrace\<close>

subsection \<open>Inputs of the utilities\<close>

definition isIdChar :: "nat \<Rightarrow> bool" where
  \<comment> \<open>an ASCII letter, a digit or the underscore\<close>
  "isIdChar c = ((97 \<le> c \<and> c \<le> 122) \<or> (65 \<le> c \<and> c \<le> 90) \<or> (48 \<le> c \<and> c \<le> 57) \<or> c = 95)"

definition statsExample :: jsstring where
  \<comment> \<open>the text \<^verbatim>\<open>1,250 likes . 42 comments\<close> with U+00B7 as the middle dot\<close>
  "statsExample = str ''1,250 likes '' @ [0xB7] @ str '' 42 comments''"

section \<open>Properties of the utilities\<close>

lemmas regex_eval =
  str_def lit_def plus_def canonicalize_def whiteSpace_def lineTerminators_def capture_def
  parseInt_def digitValue_def digitsValue_def removeCommas_def

subsection \<open>Timeframes\<close>

lemma parseTimeframe_known:
  "parseTimeframe (str ''1h'') = Some (Millis 3600000)"
  "parseTimeframe (str ''6h'') = Some (Millis 21600000)"
  "parseTimeframe (str ''12h'') = Some (Millis 43200000)"
  "parseTimeframe (str ''1d'') = Some (Millis 86400000)"
  "parseTimeframe (str ''3d'') = Some (Millis 259200000)"
  "parseTimeframe (str ''7d'') = Some (Millis 604800000)"
  "parseTimeframe (str ''30d'') = Some (Millis 2592000000)"
  by (simp_all add: parseTimeframe_def timeMapValue_def js_get_def timeMap_def truthy_def str_def)

lemma parseTimeframe_default:
  assumes "timeframe \<notin> fst ` set timeMap" and "timeframe \<notin> set objectPrototypeKeys"
  shows "parseTimeframe timeframe = Some (Millis (7 * 24 * 60 * 60 * 1000))"
proof -
  from assms(1) have "map_of timeMap timeframe = None"
    by (simp add: map_of_eq_None_iff)
  with assms(2) have "timeMapValue timeframe = None"
    by (simp add: timeMapValue_def js_get_def)
  then show ?thesis
    by (simp add: parseTimeframe_def truthy_def timeMapValue_def js_get_def timeMap_def str_def)
qed

lemma parseTimeframe_inherited:
  assumes "timeframe \<in> set objectPrototypeKeys"
  shows "parseTimeframe timeframe = Some (Builtin timeframe)"
proof -
  from assms have "timeframe \<notin> fst ` set timeMap"
    by (auto simp: objectPrototypeKeys_def timeMap_def str_def)
  then have "map_of timeMap timeframe = None"
    by (simp add: map_of_eq_None_iff)
  with assms have "timeMapValue timeframe = Some (Builtin timeframe)"
    by (simp add: timeMapValue_def js_get_def)
  then show ?thesis
    by (simp add: parseTimeframe_def truthy_def)
qed

text \<open>
  C3. The default-fallback law says that every string other than the seven symbols gets the
  duration of \<^verbatim>\<open>7d\<close>. At the string \<^verbatim>\<open>constructor\<close>, which is no timeframe symbol, the
  lookup \<^verbatim>\<open>timeMap[timeframe]\<close> finds the inherited \<^verbatim>\<open>Object.prototype.constructor\<close>,
  which is truthy, so the function returns that function object and not the 604800000 it
  returns for \<^verbatim>\<open>7d\<close>.
\<close>

theorem parseTimeframe_constructor:
  "parseTimeframe (str ''constructor'') = Some (Builtin (str ''constructor''))
   \<and> parseTimeframe (str ''7d'') = Some (Millis 604800000)
   \<and> parseTimeframe (str ''constructor'') \<noteq> parseTimeframe (str ''7d'')"
  by (simp add: parseTimeframe_def timeMapValue_def js_get_def timeMap_def truthy_def str_def
                objectPrototypeKeys_def)

subsection \<open>Post identifiers\<close>

text \<open>
  C10. Whatever the platform, the author, the timestamp and the index are, every code unit
  of the identifier \<open>generatePostId\<close> returns is an ASCII letter, a digit or an underscore.
\<close>

theorem generatePostId_safe:
  "list_all isIdChar (generatePostId platform author timestamp index)"
  by (auto simp: generatePostId_def replaceAllChars_def idChars_def isIdChar_def list_all_iff)

theorem generatePostId_safe_witness:
  "list_all isIdChar (generatePostId (str ''twitter'') (str ''Ann B. (@ann)'') (Some 1699123456789) 0)
   \<and> generatePostId (str ''twitter'') (str ''Ann B. (@ann)'') (Some 1699123456789) 0
       = str ''twitter_Ann_B____ann__1699123456789_0''"
  using generatePostId_safe [of "str ''twitter''" "str ''Ann B. (@ann)''" "Some 1699123456789" 0]
  by (simp add: generatePostId_def replaceAllChars_def idChars_def str_def numberToString_def
                intToString_def)

subsection \<open>Relative dates\<close>

text \<open>
  C4. \<open>parseFacebookDate\<close> is the date normalisation the extraction of a Facebook post
  calls. For every reference instant \<open>T\<close> (the time value of \<^verbatim>\<open>new Date()\<close> inside the
  function) and whatever the engine's date parser does, the text \<^verbatim>\<open>3 hours ago\<close> gives
  the instant \<open>T - 3 h\<close> and the text \<^verbatim>\<open>Yesterday\<close> gives \<open>T - 24 h\<close>, both exactly.
\<close>

theorem parseFacebookDate_relative_exact:
  "parseFacebookDate B T (str ''3 hours ago'') = Some (Time (T - 3 * (60 * 60 * 1000)))
   \<and> parseFacebookDate B T (str ''Yesterday'') = Some (Time (T - 24 * (60 * 60 * 1000)))"
  by (simp add: parseFacebookDate_def relativeDate_def agoRegex_def toLowerCase_def timeMinus_def
                parseIntOf_def regex_eval)

text \<open>
  The unused \<open>parseDate\<close> agrees on the first text when the engine's parser rejects it,
  and has no case for the second.
\<close>

lemma parseDate_relative:
  assumes "dateParse B (str ''3 hours ago'') = InvalidDate"
      and "dateParse B (str ''Yesterday'') = InvalidDate"
  shows "parseDate B T (str ''3 hours ago'') = Some (Time (T - 3 * (60 * 60 * 1000)))"
    and "parseDate B T (str ''Yesterday'') = None"
  using assms
  by (simp_all add: parseDate_def unitsAgoRegex_def agoDate_def timeMinus_def parseIntOf_def
                    regex_eval)

subsection \<open>Statistics\<close>

lemma map_of_setProp:
  "map_of (setProp st key number) k = (if k = key then Some number else map_of st k)"
proof (cases "key \<in> fst ` set st")
  case True
  have other: "k \<noteq> key \<Longrightarrow>
        map_of (map (\<lambda>(k, v). if k = key then (k, number) else (k, v)) xs) k = map_of xs k"
    for xs :: stats
    by (induction xs) auto
  have same: "key \<in> fst ` set xs \<Longrightarrow>
        map_of (map (\<lambda>(k, v). if k = key then (k, number) else (k, v)) xs) key = Some number"
    for xs :: stats
    by (induction xs) auto
  from True other same show ?thesis by (simp add: setProp_def)
next
  case False
  then have "map_of st key = None" by (simp add: map_of_eq_None_iff)
  with False show ?thesis
    by (auto simp: setProp_def map_add_def split: option.splits)
qed

lemma firstNumber_Some:
  "firstNumber patternArray statsText = Some v \<Longrightarrow>
   \<exists>pattern \<in> set patternArray. patternNumber pattern statsText = Some v"
  by (induction patternArray) (auto split: option.splits)

lemma eachPattern_Some:
  "map_of (eachPattern ps statsText st) key = Some v \<Longrightarrow>
   map_of st key = Some v \<or> (\<exists>pa. (key, pa) \<in> set ps \<and> firstNumber pa statsText = Some v)"
proof (induction ps arbitrary: st)
  case Nil
  then show ?case by simp
next
  case (Cons p ps)
  obtain k pa where p: "p = (k, pa)" by (cases p)
  show ?case
  proof (cases "firstNumber pa statsText")
    case None
    with Cons.prems p have "map_of (eachPattern ps statsText st) key = Some v" by simp
    from Cons.IH [OF this] show ?thesis by auto
  next
    case (Some number)
    with Cons.prems p have "map_of (eachPattern ps statsText (setProp st k number)) key = Some v"
      by simp
    from Cons.IH [OF this] Some p show ?thesis
      by (auto simp: map_of_setProp split: if_splits)
  qed
qed

lemma patternNumber_Some:
  "patternNumber pattern statsText = Some v \<Longrightarrow>
   \<exists>m g. regex_match True pattern statsText = Some m \<and> capture m 1 = Some g \<and> g \<noteq> []
         \<and> parseInt (removeCommas g) = Some v"
  by (auto simp: patternNumber_def split: option.splits if_splits)

lemma parseStats_twitter_example:
  "parseStats statsExample (str ''twitter'') = [(''likes'', 1250), (''replies'', 42)]"
  by (simp add: statsExample_def parseStats_def patternsFor_def js_get_def platformPatterns_def
                numThen_def numWord_def numCapture_def patternNumber_def setProp_def regex_eval)

text \<open>
  C5. A key is in the result of \<open>parseStats\<close> only if one of the patterns configured for
  that key and platform matched the text with a non-empty group 1, and the value stored is
  \<^verbatim>\<open>parseInt\<close> of that group with its commas removed: nothing is defaulted to zero. On the
  text \<^verbatim>\<open>1,250 likes . 42 comments\<close> and the platform \<^verbatim>\<open>twitter\<close> the result has
  \<open>likes = 1250\<close> and no \<open>comments\<close> key.
\<close>

theorem parseStats_sparse:
  "(\<forall>key v. map_of (parseStats statsText platform) key = Some v \<longrightarrow>
      (\<exists>patternArray pattern m g.
          (key, patternArray) \<in> set (patternsFor platform) \<and> pattern \<in> set patternArray
          \<and> regex_match True pattern statsText = Some m \<and> capture m 1 = Some g \<and> g \<noteq> []
          \<and> parseInt (removeCommas g) = Some v))
   \<and> map_of (parseStats statsExample (str ''twitter'')) ''likes'' = Some 1250
   \<and> map_of (parseStats statsExample (str ''twitter'')) ''comments'' = None"
proof (intro conjI allI impI)
  fix key v
  assume a: "map_of (parseStats statsText platform) key = Some v"
  then have "statsText \<noteq> []" by (auto simp: parseStats_def split: if_splits)
  with a have "map_of (eachPattern (patternsFor platform) statsText []) key = Some v"
    by (simp add: parseStats_def)
  from eachPattern_Some [OF this] obtain pa
    where pa: "(key, pa) \<in> set (patternsFor platform)" "firstNumber pa statsText = Some v"
    by auto
  from firstNumber_Some [OF pa(2)] obtain pattern
    where pt: "pattern \<in> set pa" "patternNumber pattern statsText = Some v"
    by auto
  from patternNumber_Some [OF pt(2)] pa(1) pt(1)
  show "\<exists>patternArray pattern m g.
          (key, patternArray) \<in> set (patternsFor platform) \<and> pattern \<in> set patternArray
          \<and> regex_match True pattern statsText = Some m \<and> capture m 1 = Some g \<and> g \<noteq> []
          \<and> parseInt (removeCommas g) = Some v"
    by blast
next
  show "map_of (parseStats statsExample (str ''twitter'')) ''likes'' = Some 1250"
    by (simp add: parseStats_twitter_example)
next
  show "map_of (parseStats statsExample (str ''twitter'')) ''comments'' = None"
    by (simp add: parseStats_twitter_example)
qed

theorem parseStats_sparse_witness:
  "map_of (parseStats statsExample (str ''twitter'')) ''replies'' = Some 42
   \<and> (\<exists>patternArray pattern m g.
          (''replies'', patternArray) \<in> set (patternsFor (str ''twitter'')) \<and> pattern \<in> set patternArray
          \<and> regex_match True pattern statsExample = Some m \<and> capture m 1 = Some g \<and> g \<noteq> []
          \<and> parseInt (removeCommas g) = Some 42)"
proof -
  have h: "map_of (parseStats statsExample (str ''twitter'')) ''replies'' = Some 42"
    by (simp add: parseStats_twitter_example)
  from parseStats_sparse [of statsExample "str ''twitter''"] h show ?thesis
    by blast
qed

section \<open>Properties of the service\<close>

subsection \<open>Rules for \<open>returns\<close>\<close>

lemma returnsD: "returns m Q \<Longrightarrow> m w = (Inr a, w') \<Longrightarrow> Q a"
  by (auto simp: returns_def)

lemma returns_ret: "Q a \<Longrightarrow> returns (ret a) Q"
  by (simp add: returns_def ret_def)

lemma returns_throw: "returns (throw e) Q"
  by (simp add: returns_def throw_def)

lemma returns_clock: "(\<And>x. Q (dateNow D x)) \<Longrightarrow> returns (clock D) Q"
  by (simp add: returns_def clock_def)

lemma returns_andThen:
  assumes "\<And>a. returns (f a) Q"
  shows "returns (andThen m f) Q"
  using assms by (auto simp: returns_def andThen_def split: prod.splits sum.splits)

lemma returns_andThen2:
  assumes "returns m P" and "\<And>a. P a \<Longrightarrow> returns (f a) Q"
  shows "returns (andThen m f) Q"
  using assms by (fastforce simp: returns_def andThen_def split: prod.splits sum.splits)

lemma returns_tryCatch:
  assumes "returns m Q" and "\<And>e. returns (h e) Q"
  shows "returns (tryCatch m h) Q"
  using assms by (fastforce simp: returns_def tryCatch_def split: prod.splits sum.splits)

lemma returns_tryFinally:
  assumes "returns m Q"
  shows "returns (tryFinally m c) Q"
  using assms by (fastforce simp: returns_def tryFinally_def split: prod.splits sum.splits)

lemma returns_scrapeCatch: "returns (scrapeCatch D inScope error) Q"
  unfolding scrapeCatch_def
  by (auto intro!: returns_throw returns_andThen split: option.splits)

subsection \<open>The two loops, unfolded once\<close>

lemma twitterLoop_stop:
  assumes "\<not> (n < 10 \<and> length posts < 50)"
  shows "twitterLoop D cutoff n posts = ret posts"
  by (subst twitterLoop.simps) (rule if_not_P [OF assms])

lemma twitterLoop_step:
  assumes "n < 10 \<and> length posts < 50"
  shows \<open>twitterLoop D cutoff n posts =
     andThen (ask (pageQueryAll D (AStr (str ''[data-testid="tweet"]'')))) (\<lambda>tweets.
     andThen (eachTweet D cutoff tweets posts) (\<lambda>posts'.
     andThen (act D (ScrollTo True)) (\<lambda>_.
     andThen (randomDelay D 2000 4000) (\<lambda>_.
     twitterLoop D cutoff (n + 1) posts'))))\<close>
  by (subst twitterLoop.simps) (rule if_P [OF assms])

lemma facebookLoop_stop:
  assumes "\<not> (n < 8 \<and> length posts < 40)"
  shows "facebookLoop D cutoff n posts = ret posts"
  by (subst facebookLoop.simps) (rule if_not_P [OF assms])

lemma facebookLoop_step:
  assumes "n < 8 \<and> length posts < 40"
  shows \<open>facebookLoop D cutoff n posts =
     andThen (ask (pageQueryAll D
                (AStr (str ''[data-pagelet="FeedUnit"], [role="article"]'')))) (\<lambda>fbPosts.
     andThen (eachFbPost D cutoff fbPosts posts) (\<lambda>posts'.
     andThen (act D (ScrollTo False)) (\<lambda>_.
     andThen (randomDelay D 2000 3000) (\<lambda>_.
     andThen (act D (ScrollTo True)) (\<lambda>_.
     andThen (randomDelay D 3000 5000) (\<lambda>_.
     facebookLoop D cutoff (n + 1) posts'))))))\<close>
  by (subst facebookLoop.simps) (rule if_P [OF assms])

subsection \<open>What a scrape returns\<close>

lemma returns_scrapeTargetProfile:
  assumes "returns (scrapeTwitterPosts D timeframe) Q"
      and "returns (scrapeFacebookPosts D timeframe) Q"
  shows "returns (scrapeTargetProfile D platform targetUser timeframe) Q"
  unfolding scrapeTargetProfile_def
  using assms by (auto intro!: returns_andThen returns_throw)

lemma returns_scrapeSession_posts:
  assumes "returns (scrapeTargetProfile D (q_platform q) (q_targetUser q) (effectiveTimeframe q)) Q"
  shows "returns (scrapeSession D q dir) (\<lambda>res. Q (r_posts res))"
  unfolding scrapeSession_def
  apply (rule returns_tryFinally)
  apply (rule returns_tryCatch [OF _ returns_scrapeCatch])
  apply (rule returns_andThen)
  apply (rule returns_andThen)
  apply (rule returns_andThen)
  apply (rule returns_andThen2 [OF assms])
  apply (rule returns_andThen)
  apply (rule returns_ret)
  apply simp
  done

lemma returns_scrapeWithCredentials_posts:
  assumes "returns (scrapeTargetProfile D (q_platform q) (q_targetUser q) (effectiveTimeframe q)) Q"
  shows "returns (scrapeWithCredentials D q) (\<lambda>res. Q (r_posts res))"
  unfolding scrapeWithCredentials_def Let_def
  by (auto intro!: returns_throw returns_andThen returns_scrapeSession_posts [OF assms]
           split: js_prop.splits)

subsection \<open>Identifiers are unique\<close>

lemma distinct_pushNew:
  "distinct (map p_id posts) \<Longrightarrow> distinct (map p_id (pushNew posts d))"
  by (auto simp: pushNew_def split: option.splits)

lemma eachTweet_distinct:
  "distinct (map p_id posts) \<Longrightarrow>
   returns (eachTweet D cutoff tweets posts) (\<lambda>ps. distinct (map p_id ps))"
proof (induction tweets arbitrary: posts)
  case Nil
  then show ?case by (simp add: returns_ret)
next
  case (Cons tweet rest)
  have step: "returns (tryCatch (andThen (extractTwitterPostData D tweet cutoff)
                                  (\<lambda>tweetData. ret (pushNew posts tweetData)))
                                (\<lambda>error. ret posts))
                      (\<lambda>ps. distinct (map p_id ps))"
    using Cons.prems
    by (intro returns_tryCatch returns_andThen returns_ret distinct_pushNew)
  show ?case
    by (simp, rule returns_andThen2 [OF step], rule Cons.IH)
qed

lemma eachFbPost_distinct:
  "distinct (map p_id posts) \<Longrightarrow>
   returns (eachFbPost D cutoff els posts) (\<lambda>ps. distinct (map p_id ps))"
proof (induction els arbitrary: posts)
  case Nil
  then show ?case by (simp add: returns_ret)
next
  case (Cons el rest)
  have step: "returns (tryCatch (andThen (extractFacebookPostData D el cutoff)
                                  (\<lambda>postData. ret (pushNew posts postData)))
                                (\<lambda>error. ret posts))
                      (\<lambda>ps. distinct (map p_id ps))"
    using Cons.prems
    by (intro returns_tryCatch returns_andThen returns_ret distinct_pushNew)
  show ?case
    by (simp, rule returns_andThen2 [OF step], rule Cons.IH)
qed

lemma twitterLoop_distinct:
  "distinct (map p_id posts) \<Longrightarrow>
   returns (twitterLoop D cutoff n posts) (\<lambda>ps. distinct (map p_id ps))"
proof (induction D cutoff n posts rule: twitterLoop.induct)
  case (1 D cutoff n posts)
  show ?case
  proof (cases "n < 10 \<and> length posts < 50")
    case True
    have body: "returns (eachTweet D cutoff tweets posts) (\<lambda>ps. distinct (map p_id ps))"
      for tweets
      using "1.prems" by (rule eachTweet_distinct)
    show ?thesis
      unfolding twitterLoop_step [OF True]
      apply (rule returns_andThen)
      apply (rule returns_andThen2 [OF body])
      apply (rule returns_andThen)
      apply (rule returns_andThen)
      apply (rule "1.IH" [OF True])
      apply assumption
      done
  next
    case False
    with "1.prems" show ?thesis
      by (simp add: twitterLoop_stop returns_ret)
  qed
qed

lemma facebookLoop_distinct:
  "distinct (map p_id posts) \<Longrightarrow>
   returns (facebookLoop D cutoff n posts) (\<lambda>ps. distinct (map p_id ps))"
proof (induction D cutoff n posts rule: facebookLoop.induct)
  case (1 D cutoff n posts)
  show ?case
  proof (cases "n < 8 \<and> length posts < 40")
    case True
    have body: "returns (eachFbPost D cutoff els posts) (\<lambda>ps. distinct (map p_id ps))"
      for els
      using "1.prems" by (rule eachFbPost_distinct)
    show ?thesis
      unfolding facebookLoop_step [OF True]
      apply (rule returns_andThen)
      apply (rule returns_andThen2 [OF body])
      apply (rule returns_andThen)
      apply (rule returns_andThen)
      apply (rule returns_andThen)
      apply (rule returns_andThen)
      apply (rule "1.IH" [OF True])
      apply assumption
      done
  next
    case False
    with "1.prems" show ?thesis
      by (simp add: facebookLoop_stop returns_ret)
  qed
qed

lemma scrapeTwitterPosts_distinct:
  "returns (scrapeTwitterPosts D timeframe) (\<lambda>ps. distinct (map p_id ps))"
  unfolding scrapeTwitterPosts_def Let_def
  apply (rule returns_andThen)
  apply (rule returns_andThen)
  apply (rule returns_andThen)
  apply (rule returns_andThen2 [OF twitterLoop_distinct])
   apply simp
  apply (rule returns_ret)
  apply (simp add: distinct_map_filter)
  done

lemma scrapeFacebookPosts_distinct:
  "returns (scrapeFacebookPosts D timeframe) (\<lambda>ps. distinct (map p_id ps))"
  unfolding scrapeFacebookPosts_def Let_def
  apply (rule returns_andThen)
  apply (rule returns_andThen)
  apply (rule returns_andThen)
  apply (rule returns_andThen2 [OF facebookLoop_distinct])
   apply simp
  apply (rule returns_ret)
  apply (simp add: distinct_map_filter)
  done

lemma scrapeWithCredentials_distinct:
  "returns (scrapeWithCredentials D q) (\<lambda>res. distinct (map p_id (r_posts res)))"
  by (intro returns_scrapeWithCredentials_posts returns_scrapeTargetProfile
            scrapeTwitterPosts_distinct scrapeFacebookPosts_distinct)

subsection \<open>Posts are within the timeframe\<close>

lemma dateGreaterEq_cutoff:
  "dateGreaterEq (Time x) (cutoffDate t timeframe) \<Longrightarrow>
   \<exists>d. parseTimeframe timeframe = Some (Millis d) \<and> t - d \<le> x"
  by (auto simp: dateGreaterEq_def cutoffDate_def split: option.splits jsvalue.splits)

lemma scrapeTwitterPosts_cutoff:
  "scrapeTwitterPosts D timeframe w = (Inr ps, w') \<Longrightarrow>
   list_all (\<lambda>p. dateGreaterEq (Time (p_date p)) (cutoffDate (dateNow D (ext w)) timeframe)) ps"
  by (auto simp: scrapeTwitterPosts_def Let_def andThen_def clock_def ret_def list_all_iff
           split: prod.splits sum.splits)

lemma scrapeFacebookPosts_cutoff:
  "scrapeFacebookPosts D timeframe w = (Inr ps, w') \<Longrightarrow>
   list_all (\<lambda>p. dateGreaterEq (Time (p_date p)) (cutoffDate (dateNow D (ext w)) timeframe)) ps"
  by (auto simp: scrapeFacebookPosts_def Let_def andThen_def clock_def ret_def list_all_iff
           split: prod.splits sum.splits)

lemma scrapeTwitterPosts_recent:
  assumes "\<forall>x. t0 \<le> dateNow D x"
  shows "returns (scrapeTwitterPosts D timeframe)
           (\<lambda>ps. \<forall>p \<in> set ps. \<exists>d. parseTimeframe timeframe = Some (Millis d) \<and> t0 - d \<le> p_date p)"
  unfolding returns_def
proof (intro allI impI ballI)
  fix w ps w' p
  assume run: "scrapeTwitterPosts D timeframe w = (Inr ps, w')" and p: "p \<in> set ps"
  from scrapeTwitterPosts_cutoff [OF run] p
  have "dateGreaterEq (Time (p_date p)) (cutoffDate (dateNow D (ext w)) timeframe)"
    by (simp add: list_all_iff)
  from dateGreaterEq_cutoff [OF this] obtain d
    where d: "parseTimeframe timeframe = Some (Millis d)" "dateNow D (ext w) - d \<le> p_date p"
    by blast
  from assms have "t0 \<le> dateNow D (ext w)" by simp
  with d show "\<exists>d. parseTimeframe timeframe = Some (Millis d) \<and> t0 - d \<le> p_date p"
    by auto
qed

lemma scrapeFacebookPosts_recent:
  assumes "\<forall>x. t0 \<le> dateNow D x"
  shows "returns (scrapeFacebookPosts D timeframe)
           (\<lambda>ps. \<forall>p \<in> set ps. \<exists>d. parseTimeframe timeframe = Some (Millis d) \<and> t0 - d \<le> p_date p)"
  unfolding returns_def
proof (intro allI impI ballI)
  fix w ps w' p
  assume run: "scrapeFacebookPosts D timeframe w = (Inr ps, w')" and p: "p \<in> set ps"
  from scrapeFacebookPosts_cutoff [OF run] p
  have "dateGreaterEq (Time (p_date p)) (cutoffDate (dateNow D (ext w)) timeframe)"
    by (simp add: list_all_iff)
  from dateGreaterEq_cutoff [OF this] obtain d
    where d: "parseTimeframe timeframe = Some (Millis d)" "dateNow D (ext w) - d \<le> p_date p"
    by blast
  from assms have "t0 \<le> dateNow D (ext w)" by simp
  with d show "\<exists>d. parseTimeframe timeframe = Some (Millis d) \<and> t0 - d \<le> p_date p"
    by auto
qed

subsection \<open>A run in the concrete world\<close>

lemmas monad_defs =
  ret_def throw_def andThen_def tryCatch_def tryFinally_def attempt_def lift_def
  act_def ask_def pause_def clock_def pageUrl_def randomBetween_def randomDelay_def
  startWait_def

lemmas scrape_defs =
  scrapeWithCredentials_def scrapeSession_def scrapeCatch_def userDataDirOf_def
  effectiveTimeframe_def launchStealthBrowser_def createStealthPage_def
  checkExistingSession_def scrapeTargetProfile_def scrapeTwitterPosts_def
  handlePlatformSpecificPopups_def extractTwitterPostData_def extractTwitterStats_def
  elementText_def makePost_def pushNew_def newDate_def cutoffDate_def dateLess_def
  dateGreaterEq_def configProfileUrl_def configLoginUrl_def configSelector_def argOf_def
  js_get_def scraperConfigs_def homeUrls_def loggedInSelectors_def platformPopups_def
  parseTimeframe_def timeMapValue_def timeMap_def truthy_def generatePostId_def
  replaceAllChars_def idChars_def numberToString_def intToString_def Let_def

lemmas login_defs =
  performStealthLogin_def performLoginSteps_def handlePostLoginFlow_def handle2FAPrompt_def
  humanLikeTyping_def humanLikeClick_def waitForSelector_def saveSessionState_def
  twoFASelectors_def successSelectors_def raceResult_def cannotRead_def

lemmas demo_defs =
  demoDriver_def demoDates_def demoRequest_def demoWorld_def demoResult_def demoTrace_def
  demoDir_def

lemma demo_run:
  "scrapeWithCredentials demoDriver demoRequest w
     = (Inr demoResult, \<lparr>trace = trace w @ demoTrace, ext = ()\<rparr>)"
  by (simp add: scrape_defs monad_defs demo_defs str_def twitterLoop.simps)

text \<open>
  C2. In the result of one \<open>scrapeWithCredentials\<close>, the posts at two different positions
  have different identifiers.
\<close>

theorem scrape_post_ids_unique:
  assumes "scrapeWithCredentials D q w = (Inr res, w')"
      and "i < length (r_posts res)" and "j < length (r_posts res)" and "i \<noteq> j"
  shows "p_id (r_posts res ! i) \<noteq> p_id (r_posts res ! j)"
proof -
  from returnsD [OF scrapeWithCredentials_distinct assms(1)]
  have "distinct (map p_id (r_posts res))" .
  with assms(2-4) show ?thesis
    by (auto simp: distinct_conv_nth)
qed

theorem scrape_post_ids_unique_witness:
  "fst (scrapeWithCredentials demoDriver demoRequest demoWorld) = Inr demoResult
   \<and> length (r_posts demoResult) = 2
   \<and> p_id (r_posts demoResult ! 0) \<noteq> p_id (r_posts demoResult ! 1)"
  using scrape_post_ids_unique [OF demo_run [of demoWorld], of 0 1]
  by (simp add: demo_run) (simp add: demoResult_def)

text \<open>
  C1. Let \<open>t0\<close> be the instant of the call, so that no reading of the clock made during the
  call is earlier than \<open>t0\<close>. Then every post in the result has a date that is not earlier
  than \<open>t0\<close> minus the duration \<open>parseTimeframe\<close> gives for the timeframe of the request.
  (The cutoff the code filters with is taken from a reading made during the call, which is
  not earlier than the one at \<open>t0\<close>.)
\<close>

theorem scrape_posts_within_timeframe:
  assumes "scrapeWithCredentials D q w = (Inr res, w')"
      and "\<forall>x. t0 \<le> dateNow D x"
  shows "\<forall>p \<in> set (r_posts res).
           \<exists>d. parseTimeframe (effectiveTimeframe q) = Some (Millis d) \<and> t0 - d \<le> p_date p"
proof -
  have "returns (scrapeWithCredentials D q)
          (\<lambda>res. \<forall>p \<in> set (r_posts res).
             \<exists>d. parseTimeframe (effectiveTimeframe q) = Some (Millis d) \<and> t0 - d \<le> p_date p)"
    by (intro returns_scrapeWithCredentials_posts returns_scrapeTargetProfile
              scrapeTwitterPosts_recent scrapeFacebookPosts_recent assms(2))
  from returnsD [OF this assms(1)] show ?thesis .
qed

theorem scrape_posts_within_timeframe_witness:
  "fst (scrapeWithCredentials demoDriver demoRequest demoWorld) = Inr demoResult
   \<and> parseTimeframe (effectiveTimeframe demoRequest) = Some (Millis 604800000)
   \<and> map p_date (r_posts demoResult) = [1699093800000, 1699171200000]
   \<and> list_all (\<lambda>p. 1699228800000 - 604800000 \<le> p_date p) (r_posts demoResult)"
proof -
  have clock: "\<forall>x. 1699228800000 \<le> dateNow demoDriver x"
    by (simp add: demoDriver_def)
  have tf: "parseTimeframe (effectiveTimeframe demoRequest) = Some (Millis 604800000)"
    by (simp add: demoRequest_def effectiveTimeframe_def parseTimeframe_known)
  from scrape_posts_within_timeframe [OF demo_run [of demoWorld] clock] tf
  have "list_all (\<lambda>p. 1699228800000 - 604800000 \<le> p_date p) (r_posts demoResult)"
    by (simp add: list_all_iff)
  with tf show ?thesis
    by (simp add: demo_run) (simp add: demoResult_def)
qed

subsection \<open>Rules for \<open>emits\<close>\<close>

lemma emits_ret: "emits P (ret a)"
  by (simp add: emits_def ret_def)

lemma emits_throw: "emits P (throw e)"
  by (simp add: emits_def throw_def)

lemma emits_lift: "emits P (lift r)"
  by (simp add: emits_def lift_def)

lemma emits_clock: "emits P (clock D)"
  by (simp add: emits_def clock_def)

lemma emits_pageUrl: "emits P (pageUrl D)"
  by (simp add: emits_def pageUrl_def)

lemma emits_ask: "emits P (ask q)"
  by (auto simp: emits_def ask_def split: prod.splits)

lemma emits_randomBetween: "emits P (randomBetween D lo hi)"
  by (auto simp: emits_def randomBetween_def split: prod.splits)

lemma emits_act: "P a \<Longrightarrow> emits P (act D a)"
  by (auto simp: emits_def act_def split: prod.splits)

lemma emits_pause: "P (Sleep n) \<Longrightarrow> emits P (pause D n)"
  by (auto simp: emits_def pause_def)

lemma emits_startWait: "P (WaitForSelector s 10000) \<Longrightarrow> emits P (startWait D s)"
  by (auto simp: emits_def startWait_def split: prod.splits)

lemma emitsD:
  "emits P m \<Longrightarrow> m w = (r, w') \<Longrightarrow> \<exists>as. trace w' = trace w @ as \<and> list_all P as"
  unfolding emits_def by blast

lemma emits_andThen:
  assumes "emits P m" and "\<And>a. emits P (f a)"
  shows "emits P (andThen m f)"
  unfolding emits_def
proof (intro allI impI)
  fix w r w'
  assume run: "andThen m f w = (r, w')"
  obtain r1 w1 where m: "m w = (r1, w1)" by (cases "m w")
  from emitsD [OF assms(1) m] obtain as1 where as1: "trace w1 = trace w @ as1" "list_all P as1"
    by blast
  show "\<exists>as. trace w' = trace w @ as \<and> list_all P as"
  proof (cases r1)
    case (Inl e)
    with run m have "w' = w1" by (simp add: andThen_def)
    with as1 show ?thesis by auto
  next
    case (Inr a)
    with run m have "f a w1 = (r, w')" by (simp add: andThen_def)
    from emitsD [OF assms(2) this] obtain as2 where "trace w' = trace w1 @ as2" "list_all P as2"
      by blast
    with as1 show ?thesis by auto
  qed
qed

lemma emits_tryCatch:
  assumes "emits P m" and "\<And>e. emits P (h e)"
  shows "emits P (tryCatch m h)"
  unfolding emits_def
proof (intro allI impI)
  fix w r w'
  assume run: "tryCatch m h w = (r, w')"
  obtain r1 w1 where m: "m w = (r1, w1)" by (cases "m w")
  from emitsD [OF assms(1) m] obtain as1 where as1: "trace w1 = trace w @ as1" "list_all P as1"
    by blast
  show "\<exists>as. trace w' = trace w @ as \<and> list_all P as"
  proof (cases r1)
    case (Inr a)
    with run m have "w' = w1" by (simp add: tryCatch_def)
    with as1 show ?thesis by auto
  next
    case (Inl e)
    with run m have "h e w1 = (r, w')" by (simp add: tryCatch_def)
    from emitsD [OF assms(2) this] obtain as2 where "trace w' = trace w1 @ as2" "list_all P as2"
      by blast
    with as1 show ?thesis by auto
  qed
qed

lemma emits_tryFinally:
  assumes "emits P m" and "emits P c"
  shows "emits P (tryFinally m c)"
  unfolding emits_def
proof (intro allI impI)
  fix w r w'
  assume run: "tryFinally m c w = (r, w')"
  obtain r1 w1 where m: "m w = (r1, w1)" by (cases "m w")
  obtain r2 w2 where c: "c w1 = (r2, w2)" by (cases "c w1")
  from emitsD [OF assms(1) m] obtain as1 where as1: "trace w1 = trace w @ as1" "list_all P as1"
    by blast
  from emitsD [OF assms(2) c] obtain as2 where as2: "trace w2 = trace w1 @ as2" "list_all P as2"
    by blast
  from run m c have "w' = w2" by (auto simp: tryFinally_def split: sum.splits)
  with as1 as2 show "\<exists>as. trace w' = trace w @ as \<and> list_all P as" by auto
qed

lemma emits_attempt: "emits P m \<Longrightarrow> emits P (attempt m)"
  by (auto simp: emits_def attempt_def split: prod.splits)

lemma emits_block: "(\<And>m. m \<in> set body \<Longrightarrow> emits P m) \<Longrightarrow> emits P (block body)"
  by (induction body) (auto intro: emits_ret emits_andThen)

lemma emits_weaken: "emits P m \<Longrightarrow> (\<And>a. P a \<Longrightarrow> Q a) \<Longrightarrow> emits Q m"
  unfolding emits_def list_all_iff by blast

lemma emits_if: "emits P a \<Longrightarrow> emits P b \<Longrightarrow> emits P (if c then a else b)"
  by simp

lemma emits_case_option:
  "emits P a \<Longrightarrow> (\<And>x. emits P (b x)) \<Longrightarrow> emits P (case v of None \<Rightarrow> a | Some x \<Rightarrow> b x)"
  by (cases v) auto

lemma emits_case_sum:
  "(\<And>x. emits P (a x)) \<Longrightarrow> (\<And>x. emits P (b x)) \<Longrightarrow> emits P (case v of Inl x \<Rightarrow> a x | Inr x \<Rightarrow> b x)"
  by (cases v) auto

lemma emits_case_prop:
  "(\<And>x. emits P (a x)) \<Longrightarrow> (\<And>k. emits P (b k)) \<Longrightarrow> emits P c \<Longrightarrow>
   emits P (case v of Own x \<Rightarrow> a x | Inherited k \<Rightarrow> b k | Absent \<Rightarrow> c)"
  by (cases v) auto

lemma emits_case_jsdate:
  "emits P a \<Longrightarrow> (\<And>t. emits P (b t)) \<Longrightarrow> emits P (case v of InvalidDate \<Rightarrow> a | Time t \<Rightarrow> b t)"
  by (cases v) auto

lemma emits_case_list:
  "emits P a \<Longrightarrow> (\<And>x xs. emits P (b x xs)) \<Longrightarrow> emits P (case v of [] \<Rightarrow> a | x # xs \<Rightarrow> b x xs)"
  by (cases v) auto

lemmas emits_intros =
  emits_ret emits_throw emits_lift emits_clock emits_pageUrl emits_ask emits_randomBetween
  emits_andThen emits_tryCatch emits_tryFinally emits_attempt emits_if
  emits_case_option emits_case_sum emits_case_prop emits_case_jsdate emits_case_list

lemma emits_randomDelay: "(\<And>n. P (Sleep n)) \<Longrightarrow> emits P (randomDelay D lo hi)"
  unfolding randomDelay_def by (intro emits_intros emits_pause)

subsection \<open>What the service adds to the trace\<close>

text \<open>
  Setting up the page, checking the session and scraping a profile are quiet: they make
  none of the calls of the login and remove nothing.
\<close>

lemma quiet_simps [simp]:
  "quiet (Sleep n)" "quiet (Goto u)" "quiet (WaitForSelector s t)" "quiet (ElementClick e)"
  "quiet (ScrollTo b)" "quiet NewPage" "quiet SetUserAgent" "quiet SetExtraHTTPHeaders"
  "quiet EvaluateOnNewDocument" "quiet SetViewport" "quiet (Launch d)" "quiet (EnsureDir d)"
  "quiet (CloseBrowser d)"
  by (simp_all add: quiet_def)

lemma emits_clickFirstVisible: "emits quiet (clickFirstVisible D els)"
  by (induction els) (auto intro!: emits_intros emits_act emits_randomDelay)

lemma emits_dismissPopups: "emits quiet (dismissPopups D sels)"
  by (induction sels) (auto intro!: emits_intros emits_clickFirstVisible)

lemma emits_handlePopups: "emits quiet (handlePlatformSpecificPopups D platform)"
  unfolding handlePlatformSpecificPopups_def
  by (intro emits_intros emits_dismissPopups)

lemma emits_elementText: "emits P (elementText D el)"
  unfolding elementText_def by (intro emits_intros)

lemma emits_makePost: "emits P (makePost D name text author postDate postUrl st)"
  unfolding makePost_def by (intro emits_intros)

lemma emits_extractTwitterStats: "emits P (extractTwitterStats D el)"
  unfolding extractTwitterStats_def by (intro emits_intros)

lemma emits_extractTwitterPostData: "emits P (extractTwitterPostData D el cutoff)"
  unfolding extractTwitterPostData_def Let_def
  by (intro emits_intros emits_elementText emits_makePost emits_extractTwitterStats)

lemma emits_eachTweet: "emits P (eachTweet D cutoff tweets posts)"
  by (induction tweets arbitrary: posts) (auto intro!: emits_intros emits_extractTwitterPostData)

lemma emits_twitterLoop: "emits quiet (twitterLoop D cutoff n posts)"
proof (induction D cutoff n posts rule: twitterLoop.induct)
  case (1 D cutoff n posts)
  show ?case
  proof (cases "n < 10 \<and> length posts < 50")
    case True
    show ?thesis
      unfolding twitterLoop_step [OF True]
      by (intro emits_intros emits_eachTweet emits_act emits_randomDelay "1.IH" [OF True])
         simp_all
  next
    case False
    then show ?thesis by (simp add: twitterLoop_stop emits_ret)
  qed
qed

lemma emits_scrapeTwitterPosts: "emits quiet (scrapeTwitterPosts D timeframe)"
  unfolding scrapeTwitterPosts_def Let_def
  by (intro emits_intros emits_handlePopups emits_act emits_twitterLoop) simp_all

lemma emits_firstText: "emits P (firstText D el sels)"
  by (induction sels) (auto intro!: emits_intros emits_elementText)

lemma emits_dateOfElement: "emits P (dateOfElement D el)"
  unfolding dateOfElement_def by (intro emits_intros)

lemma emits_firstDate: "emits P (firstDate D el sels)"
  by (induction sels) (auto intro!: emits_intros emits_dateOfElement)

lemma emits_gatherStatsText: "emits P (gatherStatsText D el sels acc)"
  by (induction sels arbitrary: acc) (auto intro!: emits_intros)

lemma emits_extractFacebookStats: "emits P (extractFacebookStats D el)"
  unfolding extractFacebookStats_def by (intro emits_intros emits_gatherStatsText)

lemma emits_fbPostUrl: "emits P (fbPostUrl D el)"
  unfolding fbPostUrl_def by (intro emits_intros)

lemma emits_extractFacebookPostData: "emits P (extractFacebookPostData D el cutoff)"
  unfolding extractFacebookPostData_def
  by (intro emits_intros emits_firstText emits_firstDate emits_fbPostUrl
            emits_extractFacebookStats emits_makePost)

lemma emits_eachFbPost: "emits P (eachFbPost D cutoff els posts)"
  by (induction els arbitrary: posts) (auto intro!: emits_intros emits_extractFacebookPostData)

lemma emits_facebookLoop: "emits quiet (facebookLoop D cutoff n posts)"
proof (induction D cutoff n posts rule: facebookLoop.induct)
  case (1 D cutoff n posts)
  show ?case
  proof (cases "n < 8 \<and> length posts < 40")
    case True
    show ?thesis
      unfolding facebookLoop_step [OF True]
      by (intro emits_intros emits_eachFbPost emits_act emits_randomDelay "1.IH" [OF True])
         simp_all
  next
    case False
    then show ?thesis by (simp add: facebookLoop_stop emits_ret)
  qed
qed

lemma emits_scrapeFacebookPosts: "emits quiet (scrapeFacebookPosts D timeframe)"
  unfolding scrapeFacebookPosts_def Let_def
  by (intro emits_intros emits_handlePopups emits_act emits_facebookLoop) simp_all

lemma emits_scrapeTargetProfile: "emits quiet (scrapeTargetProfile D platform targetUser timeframe)"
  unfolding scrapeTargetProfile_def
  by (intro emits_intros emits_act emits_pause emits_scrapeTwitterPosts emits_scrapeFacebookPosts)
     simp_all

lemma emits_createStealthPage: "emits quiet (createStealthPage D)"
  unfolding createStealthPage_def
  by (rule emits_block) (auto intro!: emits_act)

lemma emits_checkExistingSession: "emits quiet (checkExistingSession D platform)"
  unfolding checkExistingSession_def
  by (intro emits_intros emits_act emits_pause) simp_all

text \<open>The login types and clicks, and removes nothing either.\<close>

lemma emits_typeChars: "emits (\<lambda>a. \<not> isRemove a) (typeChars D selector chars)"
  by (induction chars) (auto intro!: emits_intros emits_act)

lemma emits_humanLikeTyping: "emits (\<lambda>a. \<not> isRemove a) (humanLikeTyping D selector text)"
  unfolding humanLikeTyping_def
  by (rule emits_block) (auto intro!: emits_act emits_typeChars emits_randomDelay emits_throw
                              split: option.splits)

lemma emits_humanLikeClick: "emits (\<lambda>a. \<not> isRemove a) (humanLikeClick D selector)"
  unfolding humanLikeClick_def
  by (intro emits_intros emits_act emits_block) (auto intro!: emits_act emits_randomDelay)

lemma emits_waitForSelector: "emits (\<lambda>a. \<not> isRemove a) (waitForSelector D selector timeout)"
  unfolding waitForSelector_def
  by (intro emits_intros emits_act) simp

lemma emits_performLoginSteps:
  "emits (\<lambda>a. \<not> isRemove a) (performLoginSteps D platform email password)"
  unfolding performLoginSteps_def Let_def
  by (intro emits_intros emits_act emits_pause emits_waitForSelector emits_humanLikeTyping
            emits_humanLikeClick emits_randomDelay) simp_all

lemma emits_handle2FAPrompt: "emits (\<lambda>a. \<not> isRemove a) (handle2FAPrompt D platform)"
  unfolding handle2FAPrompt_def
  by (intro emits_intros emits_act) simp

lemma emits_handlePostLoginFlow: "emits (\<lambda>a. \<not> isRemove a) (handlePostLoginFlow D platform)"
  unfolding handlePostLoginFlow_def
  by (intro emits_intros emits_startWait emits_pause emits_handle2FAPrompt) simp_all

lemma quiet_not_remove: "quiet a \<Longrightarrow> \<not> isRemove a"
  by (simp add: quiet_def)

lemma emits_performStealthLogin:
  "emits (\<lambda>a. \<not> isRemove a) (performStealthLogin D platform email password)"
  unfolding performStealthLogin_def
  apply (intro emits_intros emits_block)
  apply (auto intro!: emits_act emits_performLoginSteps emits_handlePostLoginFlow
              intro: emits_weaken [OF emits_handlePopups quiet_not_remove])
  done

lemma emits_saveSessionState: "emits (\<lambda>a. \<not> isRemove a) (saveSessionState D dir)"
  unfolding saveSessionState_def
  by (intro emits_intros emits_act) simp

lemma scrapeCatch_None:
  "scrapeCatch D None error w
     = (Inl (if str_includes (message error) (str ''login'')
                \<or> str_includes (message error) (str ''authentication'')
             then ReferenceError (str ''userDataDir is not defined'')
             else error), w)"
  by (simp add: scrapeCatch_def throw_def)

lemma emits_scrapeCatch_None: "emits P (scrapeCatch D None error)"
  unfolding scrapeCatch_def by (simp add: emits_throw)

lemma emits_scrapeSession: "emits (\<lambda>a. \<not> isRemove a) (scrapeSession D q dir)"
  unfolding scrapeSession_def
  apply (intro emits_intros emits_act emits_scrapeCatch_None emits_performStealthLogin
               emits_saveSessionState
               emits_weaken [OF emits_createStealthPage quiet_not_remove]
               emits_weaken [OF emits_checkExistingSession quiet_not_remove]
               emits_weaken [OF emits_scrapeTargetProfile quiet_not_remove])
  apply simp_all
  done

lemma scrapeWithCredentials_never_removes:
  "emits (\<lambda>a. \<not> isRemove a) (scrapeWithCredentials D q)"
  unfolding scrapeWithCredentials_def Let_def launchStealthBrowser_def
  by (intro emits_intros emits_act emits_scrapeCatch_None emits_scrapeSession) simp_all

subsection \<open>Authentication failures\<close>

lemmas eval_defs = scrape_defs login_defs monad_defs str_def twitterLoop.simps

lemma twoFA_run:
  "fst (scrapeWithCredentials twoFADriver demoRequest demoWorld)
     = Inl (Error (str ''Login verification failed: 2FA required but running in production mode - manual intervention needed''))"
  by (simp add: eval_defs twoFADriver_def demo_defs)

lemma loginDown_run:
  "fst (scrapeWithCredentials loginDownDriver demoRequest demoWorld)
     = Inl (ReferenceError (str ''userDataDir is not defined''))"
  by (simp add: eval_defs loginDownDriver_def twoFADriver_def demo_defs)

lemma no_remove_from_empty:
  "list_all (\<lambda>a. \<not> isRemove a) (trace (snd (scrapeWithCredentials D q demoWorld)))"
proof -
  obtain r w' where run: "scrapeWithCredentials D q demoWorld = (r, w')"
    by (cases "scrapeWithCredentials D q demoWorld")
  from emitsD [OF scrapeWithCredentials_never_removes run] run show ?thesis
    by (auto simp: demoWorld_def)
qed

text \<open>
  C6. The claim is that an authentication failure of \<open>scrapeWithCredentials\<close> deletes the
  session directory before the error is surfaced. Two runs on Twitter without a session:
  in the first the 2FA input appears after the credentials are submitted and the service
  is in production, in the second the login page cannot be reached. In the first the
  message of the error contains neither \<^verbatim>\<open>login\<close> nor \<^verbatim>\<open>authentication\<close> in lower case,
  so the handler rethrows it as it is; in the second the message contains \<^verbatim>\<open>login\<close>, the
  handler evaluates \<^verbatim>\<open>userDataDir\<close>, which is not in scope, and a \<^verbatim>\<open>ReferenceError\<close>
  replaces the error. In neither is \<^verbatim>\<open>fs.remove\<close> called.
\<close>

theorem auth_failure_keeps_session:
  "fst (scrapeWithCredentials twoFADriver demoRequest demoWorld)
     = Inl (Error (str ''Login verification failed: 2FA required but running in production mode - manual intervention needed''))
   \<and> list_all (\<lambda>a. \<not> isRemove a)
        (trace (snd (scrapeWithCredentials twoFADriver demoRequest demoWorld)))
   \<and> fst (scrapeWithCredentials loginDownDriver demoRequest demoWorld)
     = Inl (ReferenceError (str ''userDataDir is not defined''))
   \<and> list_all (\<lambda>a. \<not> isRemove a)
        (trace (snd (scrapeWithCredentials loginDownDriver demoRequest demoWorld)))"
  by (simp only: twoFA_run loginDown_run no_remove_from_empty simp_thms)

subsection \<open>Rules for \<open>triple\<close>\<close>

lemma tripleD:
  "triple Pre m P Post \<Longrightarrow> Pre (ext w) \<Longrightarrow> m w = (r, w') \<Longrightarrow>
     (\<exists>as. trace w' = trace w @ as \<and> list_all P as) \<and> (\<forall>a. r = Inr a \<longrightarrow> Post a (ext w'))"
  unfolding triple_def by blast

lemma triple_plain:
  assumes "emits P m" and "returns m Q"
  shows "triple Pre m P (\<lambda>a x. Q a)"
  unfolding triple_def
proof (intro allI impI)
  fix w r w'
  assume run: "m w = (r, w')"
  from emitsD [OF assms(1) run] returnsD [OF assms(2)] run
  show "(\<exists>as. trace w' = trace w @ as \<and> list_all P as) \<and> (\<forall>a. r = Inr a \<longrightarrow> Q a)"
    by blast
qed

lemma triple_false: "triple (\<lambda>x. False) m P Post"
  by (simp add: triple_def)

lemma triple_act:
  assumes "\<And>x. Pre x \<Longrightarrow> fst (perform D a x) = None \<Longrightarrow> Post (snd (perform D a x))"
      and "P a"
  shows "triple Pre (act D a) P (\<lambda>u. Post)"
  unfolding triple_def
proof (intro allI impI)
  fix w r w'
  assume pre: "Pre (ext w)" and run: "act D a w = (r, w')"
  obtain e x' where p: "perform D a (ext w) = (e, x')"
    by (cases "perform D a (ext w)")
  with assms(1) [OF pre] have "e = None \<Longrightarrow> Post x'"
    by simp
  with run p assms(2)
  show "(\<exists>as. trace w' = trace w @ as \<and> list_all P as) \<and> (\<forall>u. r = Inr u \<longrightarrow> Post (ext w'))"
    by (auto simp: act_def split: option.splits)
qed

lemma triple_andThen:
  assumes "triple Pre m P Mid" and "\<And>a. triple (Mid a) (f a) P Post"
  shows "triple Pre (andThen m f) P Post"
  unfolding triple_def
proof (intro allI impI)
  fix w r w'
  assume pre: "Pre (ext w)" and run: "andThen m f w = (r, w')"
  obtain r1 w1 where m: "m w = (r1, w1)"
    by (cases "m w")
  from tripleD [OF assms(1) pre m] obtain as1
    where as1: "trace w1 = trace w @ as1" "list_all P as1"
      and mid: "\<forall>a. r1 = Inr a \<longrightarrow> Mid a (ext w1)"
    by blast
  show "(\<exists>as. trace w' = trace w @ as \<and> list_all P as) \<and> (\<forall>b. r = Inr b \<longrightarrow> Post b (ext w'))"
  proof (cases r1)
    case (Inl e)
    with run m have "w' = w1" and "r = Inl e"
      by (simp_all add: andThen_def)
    with as1 show ?thesis
      by auto
  next
    case (Inr a)
    with mid have "Mid a (ext w1)"
      by simp
    from Inr run m have f: "f a w1 = (r, w')"
      by (simp add: andThen_def)
    from tripleD [OF assms(2) \<open>Mid a (ext w1)\<close> f] obtain as2
      where "trace w' = trace w1 @ as2" "list_all P as2" "\<forall>b. r = Inr b \<longrightarrow> Post b (ext w')"
      by blast
    with as1 show ?thesis
      by auto
  qed
qed

lemma triple_tryCatch_rethrown:
  assumes "triple Pre m P Post" and "\<And>e w. \<exists>e'. h e w = (Inl e', w)"
  shows "triple Pre (tryCatch m h) P Post"
  unfolding triple_def
proof (intro allI impI)
  fix w r w'
  assume pre: "Pre (ext w)" and run: "tryCatch m h w = (r, w')"
  obtain r1 w1 where m: "m w = (r1, w1)"
    by (cases "m w")
  note inner = tripleD [OF assms(1) pre m]
  show "(\<exists>as. trace w' = trace w @ as \<and> list_all P as) \<and> (\<forall>a. r = Inr a \<longrightarrow> Post a (ext w'))"
  proof (cases r1)
    case (Inl e)
    from assms(2) obtain e' where "h e w1 = (Inl e', w1)"
      by blast
    with Inl run m have "w' = w1" and "r = Inl e'"
      by (simp_all add: tryCatch_def)
    with inner show ?thesis
      by simp
  next
    case (Inr a)
    with run m have "w' = w1" and "r = r1"
      by (simp_all add: tryCatch_def)
    with inner show ?thesis
      by simp
  qed
qed

lemma triple_tryFinally:
  assumes "triple Pre m P (\<lambda>a x. Q a)" and "emits P c"
  shows "triple Pre (tryFinally m c) P (\<lambda>a x. Q a)"
  unfolding triple_def
proof (intro allI impI)
  fix w r w'
  assume pre: "Pre (ext w)" and run: "tryFinally m c w = (r, w')"
  obtain r1 w1 where m: "m w = (r1, w1)"
    by (cases "m w")
  obtain r2 w2 where c: "c w1 = (r2, w2)"
    by (cases "c w1")
  from tripleD [OF assms(1) pre m] obtain as1
    where as1: "trace w1 = trace w @ as1" "list_all P as1" and q: "\<forall>a. r1 = Inr a \<longrightarrow> Q a"
    by blast
  from emitsD [OF assms(2) c] obtain as2 where as2: "trace w2 = trace w1 @ as2" "list_all P as2"
    by blast
  from run m c have "w' = w2" and "r = r1 \<or> (\<exists>e. r = Inl e)"
    by (auto simp: tryFinally_def split: sum.splits)
  with as1 as2 q show "(\<exists>as. trace w' = trace w @ as \<and> list_all P as) \<and> (\<forall>a. r = Inr a \<longrightarrow> Q a)"
    by auto
qed

subsection \<open>Session reuse\<close>

lemma triple_createStealthPage:
  assumes keep: "\<forall>x a. Live x \<longrightarrow> isPageSetup a \<longrightarrow> Live (snd (perform D a x))"
  shows "triple Live (createStealthPage D) quiet (\<lambda>u. Live)"
proof -
  have step: "triple Live (act D a) quiet (\<lambda>u. Live)" if "isPageSetup a" for a
    using keep that by (intro triple_act) (auto simp: isPageSetup_def quiet_def)
  have stop: "triple Live (ret ()) quiet (\<lambda>u. Live)"
    by (simp add: triple_def ret_def)
  show ?thesis
    unfolding createStealthPage_def block.simps
    by (intro triple_andThen [where Mid = "\<lambda>u. Live"] step stop)
       (simp_all add: isPageSetup_def)
qed

lemma triple_checkExistingSession:
  assumes home: "\<forall>x. Live x \<longrightarrow>
            fst (perform D (Goto (argOf (js_get homeUrls platform))) x) = None
            \<and> (\<exists>h. fst (pageQuery D (argOf (js_get loggedInSelectors platform))
                        (elapse D 3000
                           (snd (perform D (Goto (argOf (js_get homeUrls platform))) x))))
                     = Inr (Some h))"
  shows "triple Live (checkExistingSession D platform) quiet (\<lambda>isLoggedIn x. isLoggedIn)"
  unfolding triple_def
proof (intro allI impI)
  fix w :: "'a world" and r w'
  assume live: "Live (ext w)" and run: "checkExistingSession D platform w = (r, w')"
  let ?goto = "Goto (argOf (js_get homeUrls platform))"
  obtain e x1 where p: "perform D ?goto (ext w) = (e, x1)"
    by (cases "perform D ?goto (ext w)")
  obtain rq x2
    where q: "pageQuery D (argOf (js_get loggedInSelectors platform)) (elapse D 3000 x1) = (rq, x2)"
    by (cases "pageQuery D (argOf (js_get loggedInSelectors platform)) (elapse D 3000 x1)")
  from home live p have e: "e = None"
    by (metis fst_conv)
  from home live p q obtain h where rq: "rq = Inr (Some h)"
    by (metis fst_conv snd_conv)
  from run p e q rq have "r = Inr True"
    by (simp add: checkExistingSession_def monad_defs)
  with emitsD [OF emits_checkExistingSession run]
  show "(\<exists>as. trace w' = trace w @ as \<and> list_all quiet as)
        \<and> (\<forall>a. r = Inr a \<longrightarrow> a)"
    by simp
qed

lemma scrapeCatch_rethrows: "\<exists>e'. scrapeCatch D None e w = (Inl e', w)"
  by (simp add: scrapeCatch_None)

lemma triple_scrapeSession:
  assumes "holdsSession D (q_platform q) dir Stored Live"
  shows "triple Live (scrapeSession D q dir) quiet (\<lambda>res x. sessionUsed res)"
proof -
  from assms
  have keep: "\<forall>x a. Live x \<longrightarrow> isPageSetup a \<longrightarrow> Live (snd (perform D a x))"
    and home: "\<forall>x. Live x \<longrightarrow>
            fst (perform D (Goto (argOf (js_get homeUrls (q_platform q)))) x) = None
            \<and> (\<exists>h. fst (pageQuery D (argOf (js_get loggedInSelectors (q_platform q)))
                        (elapse D 3000
                           (snd (perform D (Goto (argOf (js_get homeUrls (q_platform q)))) x))))
                     = Inr (Some h))"
    by (simp_all add: holdsSession_def)
  have rest: "triple (\<lambda>x. isLoggedIn)
        (andThen (if \<not> isLoggedIn
                  then andThen (performStealthLogin D (q_platform q) (Some (q_email q))
                                  (q_password q)) (\<lambda>_.
                       saveSessionState D dir)
                  else ret ()) (\<lambda>_.
         andThen (scrapeTargetProfile D (q_platform q) (q_targetUser q)
                    (effectiveTimeframe q)) (\<lambda>posts.
         andThen (clock D) (\<lambda>t.
         ret \<lparr>r_platform = q_platform q,
              r_targetUser = q_targetUser q,
              r_timeframe = effectiveTimeframe q,
              totalPosts = length posts,
              scrapedAt = t,
              sessionUsed = isLoggedIn,
              r_posts = posts\<rparr>))))
        quiet (\<lambda>res x. sessionUsed res)" for isLoggedIn
  proof (cases isLoggedIn)
    case True
    then have eq: "isLoggedIn = True"
      by simp
    show ?thesis
      unfolding eq not_True_eq_False if_False
      apply (rule triple_plain)
       apply (intro emits_intros emits_scrapeTargetProfile)
      apply (rule returns_andThen)
      apply (rule returns_andThen)
      apply (rule returns_andThen)
      apply (rule returns_ret)
      apply simp
      done
  next
    case False
    then show ?thesis
      by (simp add: triple_def)
  qed
  show ?thesis
    unfolding scrapeSession_def
    apply (rule triple_tryFinally)
     apply (rule triple_tryCatch_rethrown [OF _ scrapeCatch_rethrows])
     apply (rule triple_andThen [OF triple_createStealthPage [OF keep]])
     apply (rule triple_andThen [OF triple_checkExistingSession [OF home]])
     apply (rule rest)
    apply (intro emits_intros emits_act)
    apply simp
    done
qed

text \<open>
  C8. A first call of \<open>scrapeWithCredentials\<close>, for the request \<open>q1\<close>, has returned a
  result and left the world \<open>w1\<close>. A second call is made in \<open>w1\<close> for a request \<open>q2\<close>
  with the same key: the same platform, the same account and the same session name. The
  session persisted in the profile directory of the first call is still valid: the
  environment holds it (\<open>holdsSession\<close>) and it is stored in \<open>w1\<close>. Then the second call
  opens the profile of the first one and finds the session: if it returns a result, the
  \<open>sessionUsed\<close> flag of the result (the \<open>sessionReused\<close> of the specification) is true,
  and whether it returns or fails it makes none of the calls of the login: nothing is
  typed or clicked, no login form is waited for, no session file is written.

  That the first call returned does not by itself make the session valid (a login with a
  wrong password runs into the 3 s timeout of \<open>handlePostLoginFlow\<close> and the call goes on
  to scrape), and a session can expire or be removed between the calls; validity at the
  second call is the hypothesis the claim makes.
\<close>

theorem scrape_reuses_valid_session:
  assumes first: "scrapeWithCredentials D q1 w0 = (Inr res1, w1)"
      and key: "q_platform q2 = q_platform q1 \<and> q_email q2 = q_email q1
                \<and> q_sessionId q2 = q_sessionId q1"
      and env: "holdsSession D (q_platform q1) (userDataDirOf D q1) Stored Live"
      and valid: "Stored (ext w1)"
      and second: "scrapeWithCredentials D q2 w1 = (r, w2)"
  shows "(\<forall>res. r = Inr res \<longrightarrow> sessionUsed res)
         \<and> (\<exists>as. trace w2 = trace w1 @ as \<and> list_all (\<lambda>a. \<not> isLoginStep a) as)"
proof -
  from key have dir: "userDataDirOf D q1 = userDataDirOf D q2"
    and platform: "q_platform q1 = q_platform q2"
    by (simp_all add: userDataDirOf_def split: option.splits list.splits)
  note env2 = env [unfolded dir platform]
  from env2
  have ensure: "\<And>x. Stored x \<Longrightarrow> Stored (snd (perform D (EnsureDir (sessionDir D)) x))"
    and launch: "\<And>x. Stored x \<Longrightarrow> fst (perform D (Launch (userDataDirOf D q2)) x) = None
                  \<Longrightarrow> Live (snd (perform D (Launch (userDataDirOf D q2)) x))"
    by (simp_all add: holdsSession_def)
  have opened: "triple Stored
          (tryCatch (andThen (act D (EnsureDir (sessionDir D))) (\<lambda>_.
                     launchStealthBrowser D (userDataDirOf D q2)))
                    (scrapeCatch D None))
          quiet (\<lambda>u. Live)"
    unfolding launchStealthBrowser_def
    by (intro triple_tryCatch_rethrown scrapeCatch_rethrows
              triple_andThen [where Mid = "\<lambda>u. Stored"] triple_act ensure launch)
       simp_all
  have "triple Stored (scrapeWithCredentials D q2) quiet (\<lambda>res x. sessionUsed res)"
  proof (cases "js_get scraperConfigs (q_platform q2) = Absent")
    case True
    then show ?thesis
      by (simp add: scrapeWithCredentials_def triple_plain [OF emits_throw returns_throw])
  next
    case False
    then have "scrapeWithCredentials D q2
        = andThen (tryCatch (andThen (act D (EnsureDir (sessionDir D))) (\<lambda>_.
                             launchStealthBrowser D (userDataDirOf D q2)))
                            (scrapeCatch D None)) (\<lambda>_.
          scrapeSession D q2 (userDataDirOf D q2))"
      by (simp add: scrapeWithCredentials_def Let_def split: js_prop.splits)
    with opened triple_scrapeSession [OF env2] show ?thesis
      by (simp add: triple_andThen)
  qed
  from tripleD [OF this valid second] show ?thesis
    by (auto simp: quiet_def list_all_iff)
qed

text \<open>
  The two calls in the world that keeps sessions in profiles. The first call starts
  without a session, logs in and returns with the flag false; it leaves a session in the
  profile directory of the account. The second call, without a password, reuses it.
\<close>

lemma session_first_run:
  "scrapeWithCredentials sessionDriver demoRequest freshWorld
     = (Inr (demoResult\<lparr>sessionUsed := False\<rparr>),
        \<lparr>trace = loginTrace, ext = \<lparr>openProfile = None, loggedProfiles = [demoDir]\<rparr>\<rparr>)"
  by (simp add: eval_defs demo_defs sessionDriver_def loggedIn_def twitterMarker_def
                freshWorld_def loginTrace_def typed_def)

lemma session_second_run:
  "ext w = \<lparr>openProfile = None, loggedProfiles = [demoDir]\<rparr> \<Longrightarrow>
   scrapeWithCredentials sessionDriver returningRequest w
     = (Inr demoResult,
        \<lparr>trace = trace w @ demoTrace,
          ext = \<lparr>openProfile = None, loggedProfiles = [demoDir]\<rparr>\<rparr>)"
  by (simp add: eval_defs demo_defs sessionDriver_def loggedIn_def twitterMarker_def
                returningRequest_def)

theorem scrape_reuses_valid_session_witness:
  "fst (scrapeWithCredentials sessionDriver demoRequest freshWorld)
     = Inr (demoResult\<lparr>sessionUsed := False\<rparr>)
   \<and> afterFirstCall
     = \<lparr>trace = loginTrace, ext = \<lparr>openProfile = None, loggedProfiles = [demoDir]\<rparr>\<rparr>
   \<and> \<not> list_all (\<lambda>a. \<not> isLoginStep a) loginTrace
   \<and> fst (scrapeWithCredentials sessionDriver returningRequest afterFirstCall) = Inr demoResult
   \<and> sessionUsed demoResult
   \<and> trace (snd (scrapeWithCredentials sessionDriver returningRequest afterFirstCall))
     = loginTrace @ demoTrace
   \<and> list_all (\<lambda>a. \<not> isLoginStep a) demoTrace"
proof -
  have after: "afterFirstCall
      = \<lparr>trace = loginTrace, ext = \<lparr>openProfile = None, loggedProfiles = [demoDir]\<rparr>\<rparr>"
    by (simp add: afterFirstCall_def session_first_run)
  have first: "scrapeWithCredentials sessionDriver demoRequest freshWorld
      = (Inr (demoResult\<lparr>sessionUsed := False\<rparr>), afterFirstCall)"
    by (simp add: session_first_run after)
  have key: "q_platform returningRequest = q_platform demoRequest
             \<and> q_email returningRequest = q_email demoRequest
             \<and> q_sessionId returningRequest = q_sessionId demoRequest"
    by (simp add: returningRequest_def)
  have dir: "userDataDirOf sessionDriver demoRequest = demoDir"
    by (simp add: userDataDirOf_def sessionDriver_def demoRequest_def demoDir_def str_def)
  have env: "holdsSession sessionDriver (q_platform demoRequest)
               (userDataDirOf sessionDriver demoRequest)
               (\<lambda>x. demoDir \<in> set (loggedProfiles x))
               (\<lambda>x. openProfile x = Some demoDir \<and> demoDir \<in> set (loggedProfiles x))"
    unfolding dir
    by (auto simp: holdsSession_def isPageSetup_def sessionDriver_def loggedIn_def
                   twitterMarker_def demoRequest_def argOf_def js_get_def homeUrls_def
                   loggedInSelectors_def str_def)
  have valid: "demoDir \<in> set (loggedProfiles (ext afterFirstCall))"
    by (simp add: after)
  have second: "scrapeWithCredentials sessionDriver returningRequest afterFirstCall
      = (Inr demoResult,
         \<lparr>trace = loginTrace @ demoTrace,
           ext = \<lparr>openProfile = None, loggedProfiles = [demoDir]\<rparr>\<rparr>)"
    using session_second_run [of afterFirstCall] by (simp add: after)
  have login: "\<not> list_all (\<lambda>a. \<not> isLoginStep a) loginTrace"
    by (simp add: loginTrace_def typed_def)
  from scrape_reuses_valid_session [OF first key env valid second] login
  show ?thesis
    by (simp add: session_first_run second) (simp add: after)
qed

subsection \<open>No lock on the profile\<close>

lemma firstCallSuspended_trace:
  "firstCallSuspended = \<lparr>trace = [EnsureDir (str ''/app/sessions''), Launch demoDir], ext = ()\<rparr>"
  by (simp add: firstCallSuspended_def scrape_defs monad_defs demo_defs str_def)

text \<open>
  C9, as the specification states it: of two concurrent calls that resolve to the same
  profile location, the second blocks or fails with \<^verbatim>\<open>SessionBusyError\<close> and never opens
  a second browser on that location. In the world \<open>firstCallSuspended\<close> a first call has
  launched its browser on the profile and is suspended; a second call with the same
  request, run from there, returns a result, and the first thing it does is to launch a
  browser on the same profile location, which the first call still holds open.
\<close>

theorem second_call_opens_second_browser:
  "fst (scrapeWithCredentials demoDriver demoRequest firstCallSuspended) = Inr demoResult
   \<and> take 4 (trace (snd (scrapeWithCredentials demoDriver demoRequest firstCallSuspended)))
       = [EnsureDir (str ''/app/sessions''), Launch demoDir,
          EnsureDir (str ''/app/sessions''), Launch demoDir]
   \<and> openBrowsers
         (take 4 (trace (snd (scrapeWithCredentials demoDriver demoRequest firstCallSuspended)))) []
       = [demoDir, demoDir]"
  by (simp add: demo_run) (simp add: firstCallSuspended_trace demoTrace_def)

text \<open>
  C9, as the code has it: the service holds no lock. For a supported platform, and if
  creating the sessions directory does not fail, a call launches a browser on the profile
  location of its request as its second action, in every world: whatever calls are in
  flight, and whether or not a browser launched on that location is still open.
\<close>

theorem scrape_launches_unconditionally:
  assumes "js_get scraperConfigs (q_platform q) \<noteq> Absent"
      and "fst (perform D (EnsureDir (sessionDir D)) (ext w)) = None"
  shows "\<exists>as. trace (snd (scrapeWithCredentials D q w))
               = trace w @ EnsureDir (sessionDir D) # Launch (userDataDirOf D q) # as"
proof -
  let ?dir = "userDataDirOf D q"
  obtain r1 x1 where p1: "perform D (EnsureDir (sessionDir D)) (ext w) = (r1, x1)"
    by (cases "perform D (EnsureDir (sessionDir D)) (ext w)")
  with assms(2) have r1: "r1 = None" by simp
  obtain r2 x2 where p2: "perform D (Launch ?dir) x1 = (r2, x2)"
    by (cases "perform D (Launch ?dir) x1")
  define w2 where
    "w2 = w\<lparr>trace := trace w @ [EnsureDir (sessionDir D), Launch ?dir], ext := x2\<rparr>"
  have unfolded: "scrapeWithCredentials D q w
          = (case r2 of None \<Rightarrow> scrapeSession D q ?dir w2
             | Some e \<Rightarrow> scrapeCatch D None e w2)"
    using assms(1) p1 r1 p2
    by (auto simp: scrapeWithCredentials_def Let_def launchStealthBrowser_def andThen_def
                   tryCatch_def act_def w2_def scrapeCatch_None
             split: js_prop.splits option.splits)
  show ?thesis
  proof (cases r2)
    case None
    obtain r w' where run: "scrapeSession D q ?dir w2 = (r, w')"
      by (cases "scrapeSession D q ?dir w2")
    from emitsD [OF emits_scrapeSession run] obtain as where "trace w' = trace w2 @ as"
      by blast
    with None unfolded run show ?thesis
      by (simp add: w2_def)
  next
    case (Some e)
    with unfolded show ?thesis
      by (simp add: scrapeCatch_None w2_def)
  qed
qed

theorem scrape_launches_unconditionally_witness:
  "openBrowsers (trace firstCallSuspended) [] = [demoDir]
   \<and> take 2 (drop (length (trace firstCallSuspended))
               (trace (snd (scrapeWithCredentials demoDriver demoRequest firstCallSuspended))))
       = [EnsureDir (sessionDir demoDriver), Launch (userDataDirOf demoDriver demoRequest)]"
proof -
  have supported: "js_get scraperConfigs (q_platform demoRequest) \<noteq> Absent"
    by (simp add: js_get_def scraperConfigs_def demoRequest_def str_def)
  have ensured: "fst (perform demoDriver (EnsureDir (sessionDir demoDriver))
                       (ext firstCallSuspended)) = None"
    by (simp add: demoDriver_def)
  from scrape_launches_unconditionally [OF supported ensured]
  obtain as where
    "trace (snd (scrapeWithCredentials demoDriver demoRequest firstCallSuspended))
       = trace firstCallSuspended @ EnsureDir (sessionDir demoDriver)
           # Launch (userDataDirOf demoDriver demoRequest) # as"
    by blast
  then show ?thesis
    by (simp add: firstCallSuspended_trace)
qed

subsection \<open>Testing credentials\<close>

lemmas test_defs =
  testCredentials_def testTry_def testLogin_def testDataDirOf_def testCatch_def
  checkLoginSuccess_def checkSuccessSelectors_def

text \<open>
  C7, as the specification states it: \<open>testCredentials\<close> never raises. In a world where
  closing the browser fails, a test of valid credentials, whose login succeeds, raises the
  error of \<^verbatim>\<open>browser.close()\<close>: the \<^verbatim>\<open>finally\<close> block is outside the \<^verbatim>\<open>catch\<close>.
\<close>

theorem testCredentials_raises_close_error:
  "fst (testCredentials closeFailDriver demoTestRequest demoWorld)
     = Inl (Error (str ''Protocol error: Connection closed.''))"
  by (simp add: test_defs eval_defs closeFailDriver_def demoTestRequest_def demo_defs)

text \<open>
  C7, as the code has it: if closing the browser does not fail, \<open>testCredentials\<close> returns
  its record for every input and in every world, and the record is determined by the
  \<^verbatim>\<open>try\<close> block. If the block raises an exception (from the launch, the page set-up,
  the configuration of an unsupported platform, the navigation, the pop-ups, the login
  steps or the check), the record reports \<open>loginSuccessful = False\<close> and
  \<open>sessionSaved = False\<close>, with \<open>requires2FA\<close> telling whether the message of the exception
  contains \<^verbatim>\<open>2FA\<close> or \<^verbatim>\<open>verification\<close>; if the block returns a record, that record is the
  result.
\<close>

theorem testCredentials_returns_record:
  fixes D :: "'x driver"
  assumes "\<forall>dir x. fst (perform D (CloseBrowser dir) x) = None"
  shows "\<exists>res w'. testCredentials D q w = (Inr res, w')
           \<and> (case fst (testTry D q w) of
                 Inl error \<Rightarrow>
                   res = \<lparr>loginSuccessful = False,
                          requires2FA = (str_includes (message error) (str ''2FA'')
                                         \<or> str_includes (message error) (str ''verification'')),
                          sessionSaved = False\<rparr>
               | Inr returned \<Rightarrow> res = returned)"
proof -
  let ?dir = "testDataDirOf D q (dateNow D (ext w))"
  obtain rl wl where launch: "launchStealthBrowser D ?dir w = (rl, wl)"
    by (cases "launchStealthBrowser D ?dir w")
  show ?thesis
  proof (cases rl)
    case (Inl e)
    with launch show ?thesis
      by (simp add: testCredentials_def testTry_def testCatch_def clock_def andThen_def
                    attempt_def ret_def Let_def)
  next
    case (Inr u)
    obtain rb wb where body: "testLogin D q wl = (rb, wb)"
      by (cases "testLogin D q wl")
    obtain rc xc where close: "perform D (CloseBrowser ?dir) (ext wb) = (rc, xc)"
      by (cases "perform D (CloseBrowser ?dir) (ext wb)")
    with assms have "rc = None"
      by (metis fst_conv)
    with launch Inr body close show ?thesis
      by (cases rb)
         (simp_all add: testCredentials_def testTry_def testCatch_def clock_def andThen_def
                        attempt_def ret_def tryCatch_def tryFinally_def act_def Let_def)
  qed
qed

text \<open>
  Two tests in the concrete world: for Facebook, which has no configuration, the \<^verbatim>\<open>try\<close>
  block raises a \<^verbatim>\<open>TypeError\<close> and the record reports the failure; for Twitter the login
  succeeds.
\<close>

theorem testCredentials_returns_record_witness:
  "fst (testTry demoDriver unsupportedTestRequest demoWorld)
     = Inl (TypeError (str ''Cannot read properties of undefined (reading 'loginUrl')''))
   \<and> fst (testCredentials demoDriver unsupportedTestRequest demoWorld)
     = Inr \<lparr>loginSuccessful = False, requires2FA = False, sessionSaved = False\<rparr>
   \<and> fst (testTry demoDriver demoTestRequest demoWorld)
     = Inr \<lparr>loginSuccessful = True, requires2FA = False, sessionSaved = True\<rparr>
   \<and> fst (testCredentials demoDriver demoTestRequest demoWorld)
     = Inr \<lparr>loginSuccessful = True, requires2FA = False, sessionSaved = True\<rparr>"
proof -
  have closes: "\<forall>dir x. fst (perform demoDriver (CloseBrowser dir) x) = None"
    by (simp add: demoDriver_def)
  have unsupported:
    "fst (testTry demoDriver unsupportedTestRequest demoWorld)
       = Inl (TypeError (str ''Cannot read properties of undefined (reading 'loginUrl')''))"
    by (simp add: test_defs eval_defs objectPrototypeKeys_def unsupportedTestRequest_def
                  demoTestRequest_def demo_defs)
  have supported:
    "fst (testTry demoDriver demoTestRequest demoWorld)
       = Inr \<lparr>loginSuccessful = True, requires2FA = False, sessionSaved = True\<rparr>"
    by (simp add: test_defs eval_defs demoTestRequest_def demo_defs)
  from testCredentials_returns_record [OF closes, of unsupportedTestRequest demoWorld]
       testCredentials_returns_record [OF closes, of demoTestRequest demoWorld]
  show ?thesis
    by (auto simp: unsupported supported cannotRead_def str_def)
qed

end
